theory Spec2Isabelle
  imports Main
begin

section \<open>The store\<close>

text \<open>
  The services talk to a relational store through a query client.  The store is modelled
  as one record of four tables, each a list of rows in insertion order, together with the
  three auto-increment counters that hand out row ids.  Field names are the ones the
  services read and write, prefixed by the table's initial (\<open>m_userId\<close> is the
  \<open>userId\<close> column of a message).  Timestamps are integers; the clock value read by
  \<open>new Date()\<close> or by a column default is passed to every operation as \<open>now\<close>.
\<close>

type_synonym timestamp = int

record user_row =
  u_id :: int
  u_username :: string
  u_avatar :: "string option"
  u_isOnline :: bool
  u_lastSeen :: timestamp

record conversation =
  c_id :: int
  c_name :: "string option"
  c_isGroup :: bool
  c_lastMessageId :: "int option"
  c_updatedAt :: timestamp

record participant =
  p_id :: int
  p_userId :: int
  p_conversationId :: int
  p_isAdmin :: bool
  p_createdAt :: timestamp

record message =
  m_id :: int
  m_userId :: int
  m_conversationId :: int
  m_content :: string
  m_isDeleted :: bool
  m_isRead :: bool
  m_createdAt :: timestamp
  m_updatedAt :: timestamp

record db =
  users :: "user_row list"
  conversations :: "conversation list"
  participants :: "participant list"
  messages :: "message list"
  nextConversationId :: int
  nextParticipantId :: int
  nextMessageId :: int

text \<open>
  Every exception the modelled code can raise is a value.  The three HTTP exceptions carry
  their message; a failed query of the client carries its error code (\<open>P2002\<close>: unique
  constraint, \<open>P2003\<close>: foreign key, \<open>P2025\<close>: record not found), an error the
  database reports without such a code is an unknown request error, a query with an invalid
  argument is a validation error; \<open>TypeError\<close> is the runtime's error for reading a property of
  \<open>undefined\<close>.
\<close>

datatype exn =
    BadRequestException string
  | ForbiddenException string
  | NotFoundException string
  | UnauthorizedException string
  | PrismaClientKnownRequestError string
  | PrismaClientUnknownRequestError
  | PrismaClientValidationError
  | TypeError

text \<open>Projections of a user row, one per \<open>select\<close> clause of the sources.\<close>

record user_brief =
  ub_id :: int
  ub_username :: string
  ub_avatar :: "string option"

record user_card =
  uc_id :: int
  uc_username :: string
  uc_avatar :: "string option"
  uc_isOnline :: bool

record user_status =
  us_id :: int
  us_username :: string
  us_isOnline :: bool
  us_lastSeen :: timestamp

definition select_brief :: "user_row \<Rightarrow> user_brief" where
  "select_brief u = \<lparr>ub_id = u_id u, ub_username = u_username u, ub_avatar = u_avatar u\<rparr>"

definition select_card :: "user_row \<Rightarrow> user_card" where
  "select_card u =
     \<lparr>uc_id = u_id u, uc_username = u_username u, uc_avatar = u_avatar u,
      uc_isOnline = u_isOnline u\<rparr>"

definition select_status :: "user_row \<Rightarrow> user_status" where
  "select_status u =
     \<lparr>us_id = u_id u, us_username = u_username u, us_isOnline = u_isOnline u,
      us_lastSeen = u_lastSeen u\<rparr>"

text \<open>
  A message or a participant returned with \<open>include: { user: ... }\<close>.  The relation is
  looked up in the users table; a dangling reference yields \<open>None\<close>.
\<close>

record message_view =
  mv_message :: message
  mv_user :: "user_brief option"

record participant_view =
  pv_participant :: participant
  pv_user :: "user_card option"

record conversation_view =
  cv_conversation :: conversation
  cv_participants :: "participant_view list"

record conversation_summary =
  cs_conversation :: conversation
  cs_participants :: "participant_view list"
  cs_messages :: "message list"

subsection \<open>Query primitives\<close>

text \<open>
  A query on a unique key addresses the first row that carries the key: \<open>find\<close> reads it,
  \<open>update_first\<close> rewrites it and \<open>delete_first\<close> removes it.
\<close>

fun update_first :: "('a \<Rightarrow> bool) \<Rightarrow> ('a \<Rightarrow> 'a) \<Rightarrow> 'a list \<Rightarrow> 'a list" where
  "update_first P f [] = []"
| "update_first P f (x # xs) = (if P x then f x # xs else x # update_first P f xs)"

fun delete_first :: "('a \<Rightarrow> bool) \<Rightarrow> 'a list \<Rightarrow> 'a list" where
  "delete_first P [] = []"
| "delete_first P (x # xs) = (if P x then xs else x # delete_first P xs)"

definition user_findUnique :: "db \<Rightarrow> int \<Rightarrow> user_row option" where
  "user_findUnique d uid = find (\<lambda>u. u_id u = uid) (users d)"

definition message_findUnique :: "db \<Rightarrow> int \<Rightarrow> message option" where
  "message_findUnique d mid = find (\<lambda>m. m_id m = mid) (messages d)"

definition participant_findUnique :: "db \<Rightarrow> int \<Rightarrow> int \<Rightarrow> participant option" where
  "participant_findUnique d userId conversationId =
     find (\<lambda>p. p_userId p = userId \<and> p_conversationId p = conversationId) (participants d)"

definition conversation_findUnique :: "db \<Rightarrow> int \<Rightarrow> conversation option" where
  "conversation_findUnique d cid = find (\<lambda>c. c_id c = cid) (conversations d)"

definition message_update :: "db \<Rightarrow> int \<Rightarrow> (message \<Rightarrow> message) \<Rightarrow> (exn + message) \<times> db" where
  "message_update d mid f =
     (case message_findUnique d mid of
        None \<Rightarrow> (Inl (PrismaClientKnownRequestError ''P2025''), d)
      | Some m \<Rightarrow>
          (Inr (f m), d\<lparr>messages := update_first (\<lambda>x. m_id x = mid) f (messages d)\<rparr>))"

definition with_user :: "db \<Rightarrow> message \<Rightarrow> message_view" where
  "with_user d m =
     \<lparr>mv_message = m, mv_user = map_option select_brief (user_findUnique d (m_userId m))\<rparr>"

section \<open>MessageService\<close>

text \<open>
  A message row refers to its author and to its conversation: \<open>message.create\<close> for a
  user or a conversation that is not stored fails with \<open>P2003\<close> and stores nothing (the
  id it drew from the counter is not given back).  New rows take the column defaults
  \<open>isDeleted = false\<close> and \<open>isRead = false\<close>.  \<open>createMessage\<close> then runs its second
  write, outside any transaction.
\<close>

definition createMessage ::
  "timestamp \<Rightarrow> int \<Rightarrow> int \<Rightarrow> string \<Rightarrow> db \<Rightarrow> (exn + message_view) \<times> db" where
  "createMessage now userId conversationId content d =
     (let row = \<lparr>m_id = nextMessageId d, m_userId = userId,
                  m_conversationId = conversationId, m_content = content,
                  m_isDeleted = False, m_isRead = False,
                  m_createdAt = now, m_updatedAt = now\<rparr>
      in if user_findUnique d userId = None
         then (Inl (PrismaClientKnownRequestError ''P2003''),
               d\<lparr>nextMessageId := nextMessageId d + 1\<rparr>)
         else if conversation_findUnique d conversationId = None
         then (Inl (PrismaClientKnownRequestError ''P2003''),
               d\<lparr>nextMessageId := nextMessageId d + 1\<rparr>)
         else
           let d1 = d\<lparr>messages := messages d @ [row], nextMessageId := nextMessageId d + 1\<rparr>;
               message = with_user d1 row
           in case conversation_findUnique d1 conversationId of
                None \<Rightarrow> (Inl (PrismaClientKnownRequestError ''P2025''), d1)
              | Some _ \<Rightarrow>
                  (Inr message,
                   d1\<lparr>conversations :=
                         update_first (\<lambda>c. c_id c = conversationId)
                           (\<lambda>c. c\<lparr>c_updatedAt := now, c_lastMessageId := Some (m_id row)\<rparr>)
                           (conversations d1)\<rparr>))"

text \<open>
  \<open>findMany\<close> with \<open>orderBy: { createdAt: 'desc' }\<close>, \<open>take\<close> and \<open>skip\<close>.  The
  sort is stable, so rows with equal timestamps keep their table order.  The database
  refuses a negative \<open>skip\<close>; a negative \<open>take\<close> counts from the far end of the
  ordered rows.
\<close>

definition newest_first :: "message list \<Rightarrow> message list" where
  "newest_first ms = sort_key (\<lambda>m. - m_createdAt m) ms"

definition take_skip :: "int \<Rightarrow> int \<Rightarrow> 'a list \<Rightarrow> 'a list" where
  "take_skip tk sk xs =
     (if 0 \<le> tk then take (nat tk) (drop (nat sk) xs)
      else rev (take (nat (- tk)) (drop (nat sk) (rev xs))))"

definition deleted_placeholder :: string where
  "deleted_placeholder = ''This message was deleted''"

definition getMessagesByConversation ::
  "int \<Rightarrow> int \<Rightarrow> int \<Rightarrow> db \<Rightarrow> exn + message_view list" where
  "getMessagesByConversation conversationId limit page d =
     (let skip = (page - 1) * limit
      in if skip < 0 then Inl PrismaClientUnknownRequestError
         else
           let messages =
                 map (with_user d)
                   (take_skip limit skip
                      (newest_first
                         (filter (\<lambda>m. m_conversationId m = conversationId) (messages d))))
           in Inr (map (\<lambda>msg.
                     if m_isDeleted (mv_message msg)
                     then msg\<lparr>mv_message := (mv_message msg)\<lparr>m_content := deleted_placeholder\<rparr>\<rparr>
                     else msg) messages))"

definition editMessage ::
  "timestamp \<Rightarrow> int \<Rightarrow> int \<Rightarrow> string \<Rightarrow> db \<Rightarrow> (exn + message) \<times> db" where
  "editMessage now messageId userId newText d =
     (case message_findUnique d messageId of
        None \<Rightarrow> (Inl (NotFoundException ''Message not found''), d)
      | Some message \<Rightarrow>
          if m_userId message \<noteq> userId
          then (Inl (ForbiddenException ''You can only edit your own messages''), d)
          else message_update d messageId
                 (\<lambda>m. m\<lparr>m_content := newText, m_updatedAt := now\<rparr>))"

definition deleteMessage :: "int \<Rightarrow> int \<Rightarrow> db \<Rightarrow> (exn + message) \<times> db" where
  "deleteMessage messageId userId d =
     (case message_findUnique d messageId of
        None \<Rightarrow> (Inl (NotFoundException ''Message not found''), d)
      | Some message \<Rightarrow>
          if m_userId message \<noteq> userId
          then (Inl (ForbiddenException ''You can only delete your own messages''), d)
          else message_update d messageId (\<lambda>m. m\<lparr>m_isDeleted := True\<rparr>))"

definition markAsRead :: "int \<Rightarrow> int \<Rightarrow> db \<Rightarrow> nat \<times> db" where
  "markAsRead conversationId userId d =
     (let hit = (\<lambda>m. m_conversationId m = conversationId \<and> m_userId m \<noteq> userId
                      \<and> \<not> m_isRead m)
      in (length (filter hit (messages d)),
          d\<lparr>messages := map (\<lambda>m. if hit m then m\<lparr>m_isRead := True\<rparr> else m) (messages d)\<rparr>))"

section \<open>ConversationService\<close>

definition participants_of :: "db \<Rightarrow> int \<Rightarrow> participant list" where
  "participants_of d cid = filter (\<lambda>p. p_conversationId p = cid) (participants d)"

definition with_card :: "db \<Rightarrow> participant \<Rightarrow> participant_view" where
  "with_card d p =
     \<lparr>pv_participant = p, pv_user = map_option select_card (user_findUnique d (p_userId p))\<rparr>"

definition include_participants :: "db \<Rightarrow> conversation \<Rightarrow> conversation_view" where
  "include_participants d c =
     \<lparr>cv_conversation = c, cv_participants = map (with_card d) (participants_of d (c_id c))\<rparr>"

text \<open>
  \<open>conversation.create\<close> with nested participant rows is one transaction: the
  conversation row is inserted, then the participant rows one by one in list order, all
  with the same timestamp.  The participants table is keyed by the pair
  (userId, conversationId), the key every \<open>findUnique\<close> of the service uses, so a second
  row for the same user is refused with \<open>P2002\<close>; a row for a user that is not stored is
  refused with \<open>P2003\<close>.  A refusal rolls every row back; the ids drawn from the counters
  up to that point are not given back.
\<close>

fun insert_participants ::
  "timestamp \<Rightarrow> int \<Rightarrow> (int \<times> bool) list \<Rightarrow> db \<Rightarrow> exn option \<times> db" where
  "insert_participants now conversationId [] d = (None, d)"
| "insert_participants now conversationId ((userId, isAdmin) # rest) d =
     (let d1 = d\<lparr>nextParticipantId := nextParticipantId d + 1\<rparr>
      in if participant_findUnique d userId conversationId \<noteq> None
         then (Some (PrismaClientKnownRequestError ''P2002''), d1)
         else if user_findUnique d userId = None
         then (Some (PrismaClientKnownRequestError ''P2003''), d1)
         else insert_participants now conversationId rest
                (d1\<lparr>participants :=
                      participants d @
                      [\<lparr>p_id = nextParticipantId d, p_userId = userId,
                        p_conversationId = conversationId, p_isAdmin = isAdmin,
                        p_createdAt = now\<rparr>]\<rparr>))"

definition conversation_create ::
  "timestamp \<Rightarrow> string option \<Rightarrow> bool \<Rightarrow> (int \<times> bool) list \<Rightarrow> db \<Rightarrow> (exn + conversation) \<times> db" where
  "conversation_create now name isGroup members d =
     (let c = \<lparr>c_id = nextConversationId d, c_name = name, c_isGroup = isGroup,
               c_lastMessageId = None, c_updatedAt = now\<rparr>;
          d1 = d\<lparr>conversations := conversations d @ [c],
                 nextConversationId := nextConversationId d + 1\<rparr>
      in case insert_participants now (c_id c) members d1 of
           (Some e, d2) \<Rightarrow>
             (Inl e, d\<lparr>nextConversationId := nextConversationId d2,
                       nextParticipantId := nextParticipantId d2\<rparr>)
         | (None, d2) \<Rightarrow> (Inr c, d2))"

definition is_private_of :: "db \<Rightarrow> int \<Rightarrow> int \<Rightarrow> conversation \<Rightarrow> bool" where
  "is_private_of d user1Id user2Id c =
     (c_isGroup c = False
      \<and> participant_findUnique d user1Id (c_id c) \<noteq> None
      \<and> participant_findUnique d user2Id (c_id c) \<noteq> None)"

text \<open>
  \<open>findOrCreatePrivateConversation\<close> awaits two queries in turn, outside any
  transaction: the lookup, and the creation when the lookup found nothing.  Each is a
  function of the store at the moment it runs; the service call run without interruption is
  their composition on one store.
\<close>

definition private_lookup :: "int \<Rightarrow> int \<Rightarrow> db \<Rightarrow> exn + conversation_view option" where
  "private_lookup user1Id user2Id d =
     (if user1Id = user2Id
      then Inl (BadRequestException ''You cannot start a conversation with yourself'')
      else Inr (map_option (include_participants d)
                  (find (is_private_of d user1Id user2Id) (conversations d))))"

definition private_resume ::
  "timestamp \<Rightarrow> int \<Rightarrow> int \<Rightarrow> conversation_view option \<Rightarrow> db
     \<Rightarrow> (exn + conversation_view) \<times> db" where
  "private_resume now user1Id user2Id existing d =
     (case existing of
        Some found \<Rightarrow> (Inr found, d)
      | None \<Rightarrow>
          (case conversation_create now None False [(user1Id, False), (user2Id, False)] d of
             (Inl e, d') \<Rightarrow> (Inl e, d')
           | (Inr c, d') \<Rightarrow> (Inr (include_participants d' c), d')))"

definition findOrCreatePrivateConversation ::
  "timestamp \<Rightarrow> int \<Rightarrow> int \<Rightarrow> db \<Rightarrow> (exn + conversation_view) \<times> db" where
  "findOrCreatePrivateConversation now user1Id user2Id d =
     (case private_lookup user1Id user2Id d of
        Inl e \<Rightarrow> (Inl e, d)
      | Inr existing \<Rightarrow> private_resume now user1Id user2Id existing d)"

text \<open>
  \<open>participantIds\<close> is \<open>None\<close> when the request body carries no list (the service
  tests \<open>!participantIds\<close> first).
\<close>

definition createGroupConversation ::
  "timestamp \<Rightarrow> string \<Rightarrow> int \<Rightarrow> int list option \<Rightarrow> db \<Rightarrow> (exn + conversation) \<times> db" where
  "createGroupConversation now name adminId participantIds d =
     (case participantIds of
        None \<Rightarrow>
          (Inl (BadRequestException
                  ''A group must have at least one participant other than the admin''), d)
      | Some ids \<Rightarrow>
          if length ids = 0
          then (Inl (BadRequestException
                       ''A group must have at least one participant other than the admin''), d)
          else
            let uniqueParticipants = filter (\<lambda>id. id \<noteq> adminId) ids
            in conversation_create now (Some name) True
                 ((adminId, True) # map (\<lambda>id. (id, False)) uniqueParticipants) d)"

definition getUserConversations :: "int \<Rightarrow> db \<Rightarrow> conversation_summary list" where
  "getUserConversations userId d =
     map (\<lambda>c.
            \<lparr>cs_conversation = c,
             cs_participants =
               map (with_card d)
                 (filter (\<lambda>p. p_userId p \<noteq> userId) (participants_of d (c_id c))),
             cs_messages =
               take 1 (newest_first (filter (\<lambda>m. m_conversationId m = c_id c) (messages d)))\<rparr>)
         (sort_key (\<lambda>c. - c_updatedAt c)
            (filter (\<lambda>c. participant_findUnique d userId (c_id c) \<noteq> None) (conversations d)))"

definition isParticipant :: "db \<Rightarrow> int \<Rightarrow> int \<Rightarrow> bool" where
  "isParticipant d conversationId userId =
     (participant_findUnique d userId conversationId \<noteq> None)"

definition addParticipant ::
  "timestamp \<Rightarrow> int \<Rightarrow> int \<Rightarrow> int \<Rightarrow> db \<Rightarrow> (exn + participant) \<times> db" where
  "addParticipant now conversationId targetUserId adminId d =
     (case conversation_findUnique d conversationId of
        None \<Rightarrow> (Inl (BadRequestException ''Cannot add participants to a private chat''), d)
      | Some conversation \<Rightarrow>
          if \<not> c_isGroup conversation
          then (Inl (BadRequestException ''Cannot add participants to a private chat''), d)
          else
            case find (\<lambda>p. p_userId p = adminId) (participants_of d conversationId) of
              None \<Rightarrow> (Inl (ForbiddenException ''Only admins can add members''), d)
            | Some requester \<Rightarrow>
                if \<not> p_isAdmin requester
                then (Inl (ForbiddenException ''Only admins can add members''), d)
                else if participant_findUnique d targetUserId conversationId \<noteq> None
                then (Inl (PrismaClientKnownRequestError ''P2002''),
                      d\<lparr>nextParticipantId := nextParticipantId d + 1\<rparr>)
                else if user_findUnique d targetUserId = None
                then (Inl (PrismaClientKnownRequestError ''P2003''),
                      d\<lparr>nextParticipantId := nextParticipantId d + 1\<rparr>)
                else
                  let row = \<lparr>p_id = nextParticipantId d, p_userId = targetUserId,
                               p_conversationId = conversationId, p_isAdmin = False,
                               p_createdAt = now\<rparr>
                  in (Inr row,
                      d\<lparr>participants := participants d @ [row],
                        nextParticipantId := nextParticipantId d + 1\<rparr>))"

definition removeParticipant :: "int \<Rightarrow> int \<Rightarrow> int \<Rightarrow> db \<Rightarrow> (exn + participant) \<times> db" where
  "removeParticipant conversationId targetUserId requesterId d =
     (case participant_findUnique d requesterId conversationId of
        None \<Rightarrow> (Inl (ForbiddenException ''You are not a member of this conversation''), d)
      | Some requester \<Rightarrow>
          case participant_findUnique d targetUserId conversationId of
            None \<Rightarrow>
              (Inl (NotFoundException
                      ''Target user is not a participant in this conversation''), d)
          | Some target \<Rightarrow>
              let isLeaving = (targetUserId = requesterId)
              in if \<not> p_isAdmin requester \<and> \<not> isLeaving
                 then (Inl (ForbiddenException ''Only admins can remove other members''), d)
                 else
                   (Inr target,
                    d\<lparr>participants :=
                        delete_first
                          (\<lambda>p. p_userId p = targetUserId \<and> p_conversationId p = conversationId)
                          (participants d)\<rparr>))"

text \<open>
  \<open>deleteConversation\<close> runs inside one transaction: a failing statement rolls back to
  the state before the call.  The remaining participants are read back oldest first, the
  sort being stable on equal timestamps.
\<close>

definition deleteConversation :: "int \<Rightarrow> int \<Rightarrow> db \<Rightarrow> (exn + string) \<times> db" where
  "deleteConversation conversationId userId d =
     (case participant_findUnique d userId conversationId of
        None \<Rightarrow> (Inl (NotFoundException ''Conversation not found or access denied''), d)
      | Some participant \<Rightarrow>
          let d1 = d\<lparr>participants :=
                       delete_first
                         (\<lambda>p. p_userId p = userId \<and> p_conversationId p = conversationId)
                         (participants d)\<rparr>;
              remainingParticipants = sort_key p_createdAt (participants_of d1 conversationId)
          in case remainingParticipants of
               [] \<Rightarrow>
                 (let d2 = d1\<lparr>messages :=
                               filter (\<lambda>m. m_conversationId m \<noteq> conversationId) (messages d1)\<rparr>
                  in case conversation_findUnique d2 conversationId of
                       None \<Rightarrow> (Inl (PrismaClientKnownRequestError ''P2025''), d)
                     | Some _ \<Rightarrow>
                         (Inr ''Conversation fully deleted'',
                          d2\<lparr>conversations :=
                               delete_first (\<lambda>c. c_id c = conversationId) (conversations d2)\<rparr>))
             | oldest # _ \<Rightarrow>
                 if p_isAdmin participant
                 then (Inr ''You left the conversation'',
                       d1\<lparr>participants :=
                            update_first (\<lambda>p. p_id p = p_id oldest)
                              (\<lambda>p. p\<lparr>p_isAdmin := True\<rparr>) (participants d1)\<rparr>)
                 else (Inr ''You left the conversation'', d1))"

section \<open>UserService\<close>

text \<open>
  The gateway passes \<open>userId.toString()\<close> and the service converts it back with
  \<open>Number\<close>; the model passes the number.
\<close>

definition updateStatus :: "timestamp \<Rightarrow> int \<Rightarrow> bool \<Rightarrow> db \<Rightarrow> (exn + user_status) \<times> db" where
  "updateStatus now userId status d =
     (case user_findUnique d userId of
        None \<Rightarrow> (Inl (PrismaClientKnownRequestError ''P2025''), d)
      | Some u \<Rightarrow>
          let f = (\<lambda>u. u\<lparr>u_isOnline := status, u_lastSeen := now\<rparr>)
          in (Inr (select_status (f u)),
              d\<lparr>users := update_first (\<lambda>x. u_id x = userId) f (users d)\<rparr>))"

section \<open>ChatGateway\<close>

subsection \<open>Numbers in room names\<close>

text \<open>
  Room names are built by template strings, \<open>`conversation_${id}`\<close>, which print a
  number the way \<open>Number.prototype.toString\<close> does and a missing value as
  \<open>undefined\<close>.  An integer up to \<open>2^53\<close> in size is printed as its decimal numeral.
  A larger one stands for the double nearest to it (\<open>to_double\<close>, ties to the even
  mantissa) and is printed with the fewest significant digits that still round to that
  double, the closest such digits being chosen: followed by zeros up to 21 digits, in
  exponent form beyond, and as \<open>Infinity\<close> past the largest double.
\<close>

definition digit_char :: "nat \<Rightarrow> char" where
  "digit_char n = ''0123456789'' ! n"

function show_nat :: "nat \<Rightarrow> string" where
  "show_nat n =
     (if n < 10 then [digit_char n] else show_nat (n div 10) @ [digit_char (n mod 10)])"
  by pat_completeness auto
termination
  by (relation "measure id") auto

declare show_nat.simps [simp del]

fun bit_length :: "nat \<Rightarrow> nat" where
  "bit_length n = (if n = 0 then 0 else Suc (bit_length (n div 2)))"

declare bit_length.simps [simp del]

definition to_double :: "nat \<Rightarrow> nat" where
  "to_double x =
     (let b = bit_length x
      in if b \<le> 53 then x
         else
           let sh = b - 53; q = x div 2 ^ sh; r = x mod 2 ^ sh; h = 2 ^ (sh - 1)
           in (if h < r \<or> (r = h \<and> odd q) then q + 1 else q) * 2 ^ sh)"

fun shortest_from :: "nat \<Rightarrow> nat \<Rightarrow> nat" where
  "shortest_from x 0 = x"
| "shortest_from x (Suc e) =
     (let p = 10 ^ Suc e; lo = (x div p) * p; hi = lo + p;
          lo_ok = (to_double lo = x); hi_ok = (to_double hi = x)
      in if lo_ok \<and> hi_ok
         then (if x - lo < hi - x \<or> (x - lo = hi - x \<and> even (x div p)) then lo else hi)
         else if lo_ok then lo
         else if hi_ok then hi
         else shortest_from x e)"

definition show_number_nat :: "nat \<Rightarrow> string" where
  "show_number_nat x =
     (if x \<le> 2 ^ 53 then show_nat x
      else
        let xd = to_double x
        in if 2 ^ 1024 \<le> xd then ''Infinity''
           else
             let ds = show_nat (shortest_from xd (length (show_nat xd) - 1));
                 n = length ds
             in if n \<le> 21 then ds
                else
                  case rev (dropWhile (\<lambda>c. c = CHR ''0'') (rev ds)) of
                    [] \<Rightarrow> ds
                  | c # cs \<Rightarrow>
                      (if cs = [] then [c] else c # ''.'' @ cs) @ ''e+'' @ show_nat (n - 1))"

definition show_number :: "int \<Rightarrow> string" where
  "show_number i =
     (if i < 0 then ''-'' @ show_number_nat (nat (- i)) else show_number_nat (nat i))"

definition show_optional :: "int option \<Rightarrow> string" where
  "show_optional v = (case v of None \<Rightarrow> ''undefined'' | Some i \<Rightarrow> show_number i)"

text \<open>Reading a decimal numeral, with an optional minus sign, back as an integer.\<close>

definition digit_value :: "char \<Rightarrow> nat option" where
  "digit_value c = map_of (zip ''0123456789'' [0, 1, 2, 3, 4, 5, 6, 7, 8, 9]) c"

definition decimal_step :: "nat option \<Rightarrow> char \<Rightarrow> nat option" where
  "decimal_step acc c =
     (case acc of
        None \<Rightarrow> None
      | Some n \<Rightarrow> (case digit_value c of None \<Rightarrow> None | Some v \<Rightarrow> Some (10 * n + v)))"

definition decimal_nat :: "string \<Rightarrow> nat option" where
  "decimal_nat s = (if s = [] then None else foldl decimal_step (Some 0) s)"

definition decimal_value :: "string \<Rightarrow> int option" where
  "decimal_value s =
     (case decimal_nat s of
        Some n \<Rightarrow> Some (int n)
      | None \<Rightarrow>
          (case s of
             [] \<Rightarrow> None
           | c # rest \<Rightarrow>
               if c = CHR ''-'' then map_option (\<lambda>n. - int n) (decimal_nat rest) else None))"

definition conversation_room :: "int \<Rightarrow> string" where
  "conversation_room conversationId = ''conversation_'' @ show_number conversationId"

definition user_notifications_room :: "int option \<Rightarrow> string" where
  "user_notifications_room userId = ''user_notifications_'' @ show_optional userId"

subsection \<open>Sockets, tokens and outbound events\<close>

text \<open>
  A socket carries the session data the gateway writes (\<open>client.data.userId\<close>, absent
  until a handshake sets it), the rooms it joined and whether it is still connected.  The
  token library is a parameter \<open>jwt_verify\<close>: it maps a token to its decoded payload, or to
  \<open>None\<close> when the signature or the expiry is wrong.  The gateway reads the field \<open>id\<close>
  of the payload, which a payload need not have.
\<close>

record socket =
  sk_id :: nat
  sk_userId :: "int option"
  sk_rooms :: "string list"
  sk_connected :: bool

record handshake =
  hs_auth_token :: "string option"
  hs_query_token :: "string option"

record jwt_payload =
  jp_sub :: int
  jp_email :: string
  jp_id :: "int option"

datatype payload =
    UserStatus user_status
  | SavedMessage message_view
  | Notification string string int
  | MessageUpdated int string

datatype emitted =
    ServerEmit string payload
  | RoomEmit string string payload

definition verifyToken :: "(string \<Rightarrow> jwt_payload option) \<Rightarrow> string \<Rightarrow> exn + jwt_payload" where
  "verifyToken jwt_verify token =
     (case jwt_verify token of
        Some p \<Rightarrow> Inr p
      | None \<Rightarrow> Inl (UnauthorizedException ''Invalid or expired token''))"

text \<open>
  \<open>AuthService.getTokens\<close> signs the payload \<open>{ sub: userId, email }\<close>, for the
  access and for the refresh token alike: the payloads this service issues have no \<open>id\<close>.
\<close>

definition getTokens_payload :: "int \<Rightarrow> string \<Rightarrow> jwt_payload" where
  "getTokens_payload userId email = \<lparr>jp_sub = userId, jp_email = email, jp_id = None\<rparr>"

definition client_join :: "socket \<Rightarrow> string \<Rightarrow> socket" where
  "client_join client room = client\<lparr>sk_rooms := List.insert room (sk_rooms client)\<rparr>"

definition client_disconnect :: "socket \<Rightarrow> socket" where
  "client_disconnect client = client\<lparr>sk_connected := False\<rparr>"

text \<open>\<open>a || b\<close> on optional strings: the empty string is falsy, as \<open>undefined\<close> is.\<close>

definition or_else :: "string option \<Rightarrow> string option \<Rightarrow> string option" where
  "or_else a b = (case a of None \<Rightarrow> b | Some s \<Rightarrow> if s = [] then b else Some s)"

subsection \<open>Lifecycle\<close>

text \<open>
  Everything after the token test runs inside \<open>try\<close>: any exception ends in
  \<open>client.disconnect()\<close> and emits nothing.  With a payload that has no \<open>id\<close>, the
  session data and the room are set from \<open>undefined\<close> and \<open>userId.toString()\<close> then
  raises.
\<close>

definition handleConnection ::
  "(string \<Rightarrow> jwt_payload option) \<Rightarrow> timestamp \<Rightarrow> handshake \<Rightarrow> socket \<Rightarrow> db
     \<Rightarrow> emitted list \<times> socket \<times> db" where
  "handleConnection jwt_verify now hs client d =
     (case or_else (hs_auth_token hs) (hs_query_token hs) of
        None \<Rightarrow> ([], client_disconnect client, d)
      | Some token \<Rightarrow>
          if token = [] then ([], client_disconnect client, d)
          else
            case verifyToken jwt_verify token of
              Inl _ \<Rightarrow> ([], client_disconnect client, d)
            | Inr payload \<Rightarrow>
                let userId = jp_id payload;
                    client1 = client\<lparr>sk_userId := userId\<rparr>;
                    client2 = client_join client1 (user_notifications_room userId)
                in case userId of
                     None \<Rightarrow> ([], client_disconnect client2, d)
                   | Some uid \<Rightarrow>
                       (case updateStatus now uid True d of
                          (Inl _, d') \<Rightarrow> ([], client_disconnect client2, d')
                        | (Inr updatedUser, d') \<Rightarrow>
                            ([ServerEmit ''userStatusChanged'' (UserStatus updatedUser)],
                             client2, d')))"

text \<open>\<open>if (userId)\<close>: an absent id and the number 0 are both falsy.\<close>

definition handleDisconnect ::
  "timestamp \<Rightarrow> socket \<Rightarrow> db \<Rightarrow> (exn + unit) \<times> emitted list \<times> db" where
  "handleDisconnect now client d =
     (case sk_userId client of
        None \<Rightarrow> (Inr (), [], d)
      | Some userId \<Rightarrow>
          if userId = 0 then (Inr (), [], d)
          else
            case updateStatus now userId False d of
              (Inl e, d') \<Rightarrow> (Inl e, [], d')
            | (Inr updatedUser, d') \<Rightarrow>
                (Inr (), [ServerEmit ''userStatusChanged'' (UserStatus updatedUser)], d'))"

subsection \<open>Messaging\<close>

record send_payload =
  sp_conversationId :: int
  sp_text :: string
  sp_receiverId :: "int option"

record edit_payload =
  ep_messageId :: int
  ep_conversationId :: int
  ep_text :: string

datatype send_reply = ErrorReply string | Saved message_view

text \<open>
  A socket without session data makes the membership query fail on its missing key.  The
  notification reads \<open>savedMessage.user.username\<close> after the room broadcast, so an
  absent user raises only then.
\<close>

definition handleMessage ::
  "timestamp \<Rightarrow> socket \<Rightarrow> send_payload \<Rightarrow> db \<Rightarrow> (exn + send_reply) \<times> emitted list \<times> db" where
  "handleMessage now client payload d =
     (case sk_userId client of
        None \<Rightarrow> (Inl PrismaClientValidationError, [], d)
      | Some senderId \<Rightarrow>
          if \<not> isParticipant d (sp_conversationId payload) senderId
          then (Inr (ErrorReply ''Unauthorized: You are not a member of this conversation''),
                [], d)
          else
            case createMessage now senderId (sp_conversationId payload) (sp_text payload) d of
              (Inl e, d') \<Rightarrow> (Inl e, [], d')
            | (Inr savedMessage, d') \<Rightarrow>
                let roomName = conversation_room (sp_conversationId payload);
                    sent = [RoomEmit roomName ''receiveMessage'' (SavedMessage savedMessage)]
                in case sp_receiverId payload of
                     None \<Rightarrow> (Inr (Saved savedMessage), sent, d')
                   | Some receiverId \<Rightarrow>
                       if receiverId = 0 then (Inr (Saved savedMessage), sent, d')
                       else
                         case mv_user savedMessage of
                           None \<Rightarrow> (Inl TypeError, sent, d')
                         | Some user \<Rightarrow>
                             (Inr (Saved savedMessage),
                              sent @
                              [RoomEmit (user_notifications_room (Some receiverId))
                                 ''newNotification''
                                 (Notification (ub_username user) (sp_text payload)
                                    (sp_conversationId payload))],
                              d'))"

text \<open>
  \<open>editMessage\<close> compares the author with the caller by \<open>!==\<close>; for a socket without
  session data the comparison is with \<open>undefined\<close>, which no author equals.
\<close>

definition handleEditMessage ::
  "timestamp \<Rightarrow> socket \<Rightarrow> edit_payload \<Rightarrow> db \<Rightarrow> (exn + message) \<times> emitted list \<times> db" where
  "handleEditMessage now client payload d =
     (let (result, d') =
            (case sk_userId client of
               Some userId \<Rightarrow> editMessage now (ep_messageId payload) userId (ep_text payload) d
             | None \<Rightarrow>
                 (case message_findUnique d (ep_messageId payload) of
                    None \<Rightarrow> (Inl (NotFoundException ''Message not found''), d)
                  | Some _ \<Rightarrow>
                      (Inl (ForbiddenException ''You can only edit your own messages''), d)))
      in case result of
           Inl e \<Rightarrow> (Inl e, [], d')
         | Inr updatedMessage \<Rightarrow>
             (Inr updatedMessage,
              [RoomEmit (conversation_room (ep_conversationId payload)) ''messageUpdated''
                 (MessageUpdated (ep_messageId payload) (ep_text payload))],
              d'))"

subsection \<open>A gateway processing lifecycle events in sequence\<close>

text \<open>
  The framework calls \<open>handleConnection\<close> with a fresh socket for every new connection
  and \<open>handleDisconnect\<close> when a socket closes, be it closed by its client or by
  \<open>client.disconnect()\<close> during the handshake.  A closed socket is kept as disconnected.
\<close>

record gateway =
  g_sockets :: "socket list"
  g_db :: db

datatype lifecycle = Connect timestamp nat handshake | Disconnect timestamp nat

definition open_count :: "gateway \<Rightarrow> int \<Rightarrow> nat" where
  "open_count g userId =
     length (filter (\<lambda>s. sk_connected s \<and> sk_userId s = Some userId) (g_sockets g))"

fun step :: "(string \<Rightarrow> jwt_payload option) \<Rightarrow> lifecycle \<Rightarrow> gateway \<Rightarrow> emitted list \<times> gateway" where
  "step jwt_verify (Connect now sid hs) g =
     (case handleConnection jwt_verify now hs
             \<lparr>sk_id = sid, sk_userId = None, sk_rooms = [], sk_connected = True\<rparr> (g_db g) of
        (evs, client, d) \<Rightarrow>
          if sk_connected client
          then (evs, \<lparr>g_sockets = g_sockets g @ [client], g_db = d\<rparr>)
          else
            (case handleDisconnect now client d of
               (_, evs', d') \<Rightarrow>
                 (evs @ evs', \<lparr>g_sockets = g_sockets g @ [client], g_db = d'\<rparr>)))"
| "step jwt_verify (Disconnect now sid) g =
     (case find (\<lambda>s. sk_id s = sid \<and> sk_connected s) (g_sockets g) of
        None \<Rightarrow> ([], g)
      | Some client \<Rightarrow>
          (case handleDisconnect now client (g_db g) of
             (_, evs, d) \<Rightarrow>
               (evs,
                \<lparr>g_sockets =
                   update_first (\<lambda>s. sk_id s = sid \<and> sk_connected s) client_disconnect
                     (g_sockets g),
                 g_db = d\<rparr>)))"

fun run :: "(string \<Rightarrow> jwt_payload option) \<Rightarrow> lifecycle list \<Rightarrow> gateway \<Rightarrow> emitted list \<times> gateway" where
  "run jwt_verify [] g = ([], g)"
| "run jwt_verify (e # es) g =
     (case step jwt_verify e g of
        (evs, g1) \<Rightarrow> (case run jwt_verify es g1 of (evs', g2) \<Rightarrow> (evs @ evs', g2)))"

subsection \<open>Repeated private-conversation requests\<close>

fun private_calls ::
  "timestamp \<Rightarrow> (int \<times> int) list \<Rightarrow> db \<Rightarrow> (exn + conversation_view) list \<times> db" where
  "private_calls now [] d = ([], d)"
| "private_calls now ((a, b) # cs) d =
     (case findOrCreatePrivateConversation now a b d of
        (r, d1) \<Rightarrow> (case private_calls now cs d1 of (rs, d2) \<Rightarrow> (r # rs, d2)))"

subsection \<open>Measures on the store\<close>

text \<open>
  Conversation ids come from a counter that only grows, so every stored id, and every
  conversation id a participant row refers to, lies below it.
  \<open>pair_count\<close> counts the private conversations that hold both users and
  \<open>resolved_ids\<close> reads the conversation id out of each result of a sequence of calls.
\<close>

definition conv_ids_fresh :: "db \<Rightarrow> bool" where
  "conv_ids_fresh d =
     (list_all (\<lambda>c. c_id c < nextConversationId d) (conversations d)
      \<and> list_all (\<lambda>p. p_conversationId p < nextConversationId d) (participants d))"

text \<open>
  The foreign keys of the participants table: every participant row refers to a stored user
  and to a stored conversation.
\<close>

definition foreign_keys_hold :: "db \<Rightarrow> bool" where
  "foreign_keys_hold d =
     list_all (\<lambda>p. user_findUnique d (p_userId p) \<noteq> None
                  \<and> conversation_findUnique d (p_conversationId p) \<noteq> None)
       (participants d)"

definition pair_count :: "db \<Rightarrow> int \<Rightarrow> int \<Rightarrow> nat" where
  "pair_count d user1Id user2Id =
     length (filter (is_private_of d user1Id user2Id) (conversations d))"

definition resolved_ids :: "(exn + conversation_view) list \<Rightarrow> (exn + int) list" where
  "resolved_ids rs = map (map_sum (\<lambda>e. e) (\<lambda>v. c_id (cv_conversation v))) rs"

definition new_private :: "timestamp \<Rightarrow> db \<Rightarrow> conversation" where
  "new_private now d =
     \<lparr>c_id = nextConversationId d, c_name = None, c_isGroup = False,
      c_lastMessageId = None, c_updatedAt = now\<rparr>"

section \<open>Example stores\<close>

text \<open>
  A group, conversation 20, created by user 5 (its admin) with user 7 as second member and
  one message; the same group with user 5 alone; the same group with its message
  soft-deleted; and an empty store.
\<close>

definition eve :: user_row where
  "eve = \<lparr>u_id = 5, u_username = ''eve'', u_avatar = None, u_isOnline = False, u_lastSeen = 0\<rparr>"

definition gil :: user_row where
  "gil = \<lparr>u_id = 7, u_username = ''gil'', u_avatar = None, u_isOnline = False, u_lastSeen = 0\<rparr>"

definition team :: conversation where
  "team = \<lparr>c_id = 20, c_name = Some ''team'', c_isGroup = True, c_lastMessageId = Some 1,
           c_updatedAt = 3\<rparr>"

definition eve_in_team :: participant where
  "eve_in_team = \<lparr>p_id = 1, p_userId = 5, p_conversationId = 20, p_isAdmin = True,
                  p_createdAt = 1\<rparr>"

definition gil_in_team :: participant where
  "gil_in_team = \<lparr>p_id = 2, p_userId = 7, p_conversationId = 20, p_isAdmin = False,
                  p_createdAt = 2\<rparr>"

definition hello :: message where
  "hello = \<lparr>m_id = 1, m_userId = 5, m_conversationId = 20, m_content = ''hello'',
            m_isDeleted = False, m_isRead = False, m_createdAt = 3, m_updatedAt = 3\<rparr>"

definition secret :: message where
  "secret = \<lparr>m_id = 1, m_userId = 5, m_conversationId = 20, m_content = ''secret'',
             m_isDeleted = True, m_isRead = False, m_createdAt = 3, m_updatedAt = 3\<rparr>"

definition team_db :: db where
  "team_db = \<lparr>users = [eve, gil], conversations = [team],
              participants = [eve_in_team, gil_in_team], messages = [hello],
              nextConversationId = 21, nextParticipantId = 3, nextMessageId = 2\<rparr>"

definition solo_db :: db where
  "solo_db = team_db\<lparr>participants := [eve_in_team]\<rparr>"

definition secret_db :: db where
  "secret_db = team_db\<lparr>messages := [secret]\<rparr>"

definition empty_db :: db where
  "empty_db = \<lparr>users = [], conversations = [], participants = [], messages = [],
               nextConversationId = 1, nextParticipantId = 1, nextMessageId = 1\<rparr>"

text \<open>Sockets of user 5, of user 7 and of a user 9 who is in no conversation.\<close>

definition eve_socket :: socket where
  "eve_socket = \<lparr>sk_id = 1, sk_userId = Some 5, sk_rooms = [], sk_connected = True\<rparr>"

definition gil_socket :: socket where
  "gil_socket = \<lparr>sk_id = 2, sk_userId = Some 7, sk_rooms = [], sk_connected = True\<rparr>"

definition stranger_socket :: socket where
  "stranger_socket = \<lparr>sk_id = 3, sk_userId = Some 9, sk_rooms = [], sk_connected = True\<rparr>"

definition hi :: send_payload where
  "hi = \<lparr>sp_conversationId = 20, sp_text = ''hi'', sp_receiverId = None\<rparr>"

definition rewrite :: edit_payload where
  "rewrite = \<lparr>ep_messageId = 1, ep_conversationId = 20, ep_text = ''again''\<rparr>"

text \<open>
  A token library that accepts one token, issued by \<open>getTokens\<close> to user 7; and one
  that accepts one token whose payload carries \<open>id = 7\<close>.
\<close>

definition issued_verify :: "string \<Rightarrow> jwt_payload option" where
  "issued_verify token =
     (if token = ''token-7'' then Some (getTokens_payload 7 ''gil@example.org'') else None)"


definition example_verify :: "string \<Rightarrow> jwt_payload option" where
  "example_verify token =
     (if token = ''token-7''
      then Some \<lparr>jp_sub = 7, jp_email = ''gil@example.org'', jp_id = Some 7\<rparr>
      else None)"

definition gil_handshake :: handshake where
  "gil_handshake = \<lparr>hs_auth_token = Some ''token-7'', hs_query_token = None\<rparr>"

definition idle_gateway :: gateway where
  "idle_gateway = \<lparr>g_sockets = [], g_db = team_db\<rparr>"

definition busy_gateway :: gateway where
  "busy_gateway = \<lparr>g_sockets = [gil_socket, gil_socket\<lparr>sk_id := 4\<rparr>], g_db = team_db\<rparr>"

definition gil_status :: "bool \<Rightarrow> timestamp \<Rightarrow> emitted" where
  "gil_status online seen =
     ServerEmit ''userStatusChanged''
       (UserStatus \<lparr>us_id = 7, us_username = ''gil'', us_isOnline = online, us_lastSeen = seen\<rparr>)"

lemmas example_defs = eve_def gil_def team_def eve_in_team_def gil_in_team_def hello_def
  secret_def team_db_def solo_db_def secret_db_def empty_db_def eve_socket_def gil_socket_def
  stranger_socket_def hi_def rewrite_def example_verify_def gil_handshake_def idle_gateway_def
  busy_gateway_def gil_status_def issued_verify_def

section \<open>Facts about the query primitives\<close>

lemma find_update_first:
  "find P xs = Some x \<Longrightarrow> P (f x) \<Longrightarrow> find P (update_first P f xs) = Some (f x)"
  by (induction xs) (auto split: if_splits)

lemma map_update_first:
  "(\<And>x. g (f x) = g x) \<Longrightarrow> map g (update_first P f xs) = map g xs"
  by (induction xs) auto

lemma set_delete_first: "set (delete_first P xs) \<subseteq> set xs"
  by (induction xs) auto

lemma find_append_split:
  "find P (xs @ ys) = (case find P xs of None \<Rightarrow> find P ys | Some x \<Rightarrow> Some x)"
  by (induction xs) auto

lemma find_absent_key: "v \<notin> k ` set xs \<Longrightarrow> find (\<lambda>x. k x = v) xs = None"
  by (induction xs) auto

lemma find_delete_first_distinct:
  "distinct (map k xs) \<Longrightarrow> find (\<lambda>x. k x = v) (delete_first (\<lambda>x. k x = v) xs) = None"
  by (induction xs) (auto simp: find_absent_key)

lemma distinct_delete_first: "distinct (map k xs) \<Longrightarrow> distinct (map k (delete_first P xs))"
proof (induction xs)
  case Nil
  then show ?case by simp
next
  case (Cons a xs)
  have "k a \<notin> k ` set (delete_first P xs)"
    using Cons.prems set_delete_first [of P xs] by auto
  then show ?case using Cons by simp
qed

lemma filter_delete_first:
  "find P xs = Some x \<Longrightarrow>
     length (filter Q xs) = length (filter Q (delete_first P xs)) + (if Q x then 1 else 0)"
  by (induction xs) (auto split: if_splits)

lemma update_first_distinct:
  "distinct (map k xs) \<Longrightarrow> x \<in> set xs \<Longrightarrow>
     update_first (\<lambda>p. k p = k x) f xs = map (\<lambda>p. if p = x then f p else p) xs"
proof (induction xs)
  case Nil
  then show ?case by simp
next
  case (Cons a xs)
  show ?case
  proof (cases "a = x")
    case True
    then have "x \<notin> set xs" using Cons.prems(1) by auto
    then have "map (\<lambda>p. if p = x then f p else p) xs = xs"
      by (induction xs) auto
    then show ?thesis using True by simp
  next
    case False
    then have "x \<in> set xs" using Cons.prems(2) by simp
    then have "k a \<noteq> k x" using Cons.prems(1) by auto
    then show ?thesis using Cons False \<open>x \<in> set xs\<close> by simp
  qed
qed

lemma filter_eq_distinct: "distinct xs \<Longrightarrow> x \<in> set xs \<Longrightarrow> filter (\<lambda>p. p = x) xs = [x]"
  by (induction xs) (auto simp: filter_empty_conv)

lemma filter_map_single:
  "\<forall>p\<in>set ys. \<not> Q p \<Longrightarrow> Q (f x) \<Longrightarrow>
     filter Q (map (\<lambda>p. if p = x then f p else p) ys)
       = map (\<lambda>p. if p = x then f p else p) (filter (\<lambda>p. p = x) ys)"
  by (induction ys) auto

lemma filter_map_invariant:
  "(\<And>p. c (g p) = c p) \<Longrightarrow>
     filter (\<lambda>p. c p = v) (map g ys) = map g (filter (\<lambda>p. c p = v) ys)"
  by (induction ys) auto

lemma find_filter_single: "filter P xs = [c] \<Longrightarrow> find P xs = Some c"
  by (induction xs) (auto split: if_splits simp: filter_empty_conv find_None_iff)

lemma map_enumerate_snd: "map (\<lambda>(i, x). g x) (enumerate n xs) = map g xs"
  by (induction xs arbitrary: n) auto

lemma sort_key_Nil: "sort_key f xs = [] \<Longrightarrow> xs = []"
  using length_sort [of f xs] by auto

lemma sort_key_head_least:
  assumes "sort_key f xs = y # ys"
  shows "\<forall>q\<in>set xs. f y \<le> f q"
proof -
  have "sorted (map f (y # ys))"
    using sorted_sort_key [of f xs] assms by simp
  moreover have "set xs = set (y # ys)"
    using set_sort [of f xs] assms by simp
  ultimately show ?thesis by auto
qed

lemma participants_of_empty:
  "(participants_of d cid = []) = (cid \<notin> set (map p_conversationId (participants d)))"
  by (auto simp: participants_of_def filter_empty_conv)

subsection \<open>Numerals\<close>

lemma digit_value_digit_char: "n < 10 \<Longrightarrow> digit_value (digit_char n) = Some n"
proof -
  assume "n < 10"
  then have "n \<in> {0, 1, 2, 3, 4, 5, 6, 7, 8, 9}" by auto
  then show ?thesis
    by (elim insertE emptyE) (simp_all add: digit_value_def digit_char_def)
qed

lemma foldl_decimal_show_nat: "foldl decimal_step (Some 0) (show_nat n) = Some n"
proof (induction n rule: show_nat.induct)
  case (1 n)
  show ?case
  proof (cases "n < 10")
    case True
    then show ?thesis
      by (simp add: show_nat.simps [of n] decimal_step_def digit_value_digit_char)
  next
    case False
    then have "foldl decimal_step (Some 0) (show_nat (n div 10)) = Some (n div 10)"
      using "1" by simp
    then have "foldl decimal_step (Some 0) (show_nat n)
                 = decimal_step (Some (n div 10)) (digit_char (n mod 10))"
      using False by (simp add: show_nat.simps [of n])
    also have "\<dots> = Some n"
      by (simp add: decimal_step_def digit_value_digit_char)
    finally show ?thesis .
  qed
qed

lemma show_nat_not_Nil: "show_nat n \<noteq> []"
  by (simp add: show_nat.simps [of n])

lemma decimal_nat_show_nat: "decimal_nat (show_nat n) = Some n"
  by (simp add: decimal_nat_def show_nat_not_Nil foldl_decimal_show_nat)

lemma foldl_decimal_None: "foldl decimal_step None s = None"
  by (induction s) (simp_all add: decimal_step_def)

lemma decimal_nat_minus: "decimal_nat (CHR ''-'' # s) = None"
  by (simp add: decimal_nat_def decimal_step_def digit_value_def foldl_decimal_None)

text \<open>
  Up to \<open>2^53\<close> in size, the printed number is the decimal numeral of the integer.
\<close>

lemma decimal_value_show_number:
  assumes "\<bar>i\<bar> \<le> 2 ^ 53"
  shows "decimal_value (show_number i) = Some i"
proof (cases "i < 0")
  case True
  then have "nat (- i) \<le> 2 ^ 53" using assms by (simp add: nat_le_iff)
  then have "show_number i = CHR ''-'' # show_nat (nat (- i))"
    using True by (simp add: show_number_def show_number_nat_def)
  then show ?thesis
    using True by (simp add: decimal_value_def decimal_nat_minus decimal_nat_show_nat)
next
  case False
  then have "nat i \<le> 2 ^ 53" using assms by (simp add: nat_le_iff)
  then have "show_number i = show_nat (nat i)"
    using False by (simp add: show_number_def show_number_nat_def)
  then show ?thesis
    using False by (simp add: decimal_value_def decimal_nat_show_nat)
qed

lemma show_number_exponent_example: "show_number (10 ^ 21) = ''1e+21''"
  by (simp add: show_number_def show_number_nat_def show_nat.simps digit_char_def
      to_double_def bit_length.simps Let_def)

lemma room_of_gil: "user_notifications_room (Some 7) = ''user_notifications_7''"
  by (simp add: user_notifications_room_def show_optional_def show_number_def
      show_number_nat_def show_nat.simps digit_char_def)

lemma room_of_team: "conversation_room 20 = ''conversation_20''"
  by (simp add: conversation_room_def show_number_def show_number_nat_def show_nat.simps
      digit_char_def)

section \<open>Message edits and deletions\<close>

text \<open>
  C6.  An edit or a soft delete requested by anyone but the author of the message fails with
  the authorization error and leaves the store as it was; when no message has the given id
  the call fails with the not-found error, the store again unchanged.  Both operations
  return the store they were given, so no record, the message included, is modified.
\<close>

theorem edit_delete_rejects_non_author:
  "(message_findUnique d messageId = None \<longrightarrow>
      editMessage now messageId userId newText d
        = (Inl (NotFoundException ''Message not found''), d)
      \<and> deleteMessage messageId userId d
        = (Inl (NotFoundException ''Message not found''), d))
   \<and> (\<forall>message. message_findUnique d messageId = Some message \<and> m_userId message \<noteq> userId \<longrightarrow>
      editMessage now messageId userId newText d
        = (Inl (ForbiddenException ''You can only edit your own messages''), d)
      \<and> deleteMessage messageId userId d
        = (Inl (ForbiddenException ''You can only delete your own messages''), d))"
  by (simp add: editMessage_def deleteMessage_def)

theorem edit_delete_rejects_non_author_witness:
  "message_findUnique team_db 99 = None
   \<and> editMessage 4 99 7 ''mine'' team_db = (Inl (NotFoundException ''Message not found''), team_db)
   \<and> deleteMessage 99 7 team_db = (Inl (NotFoundException ''Message not found''), team_db)
   \<and> message_findUnique team_db 1 = Some hello \<and> m_userId hello \<noteq> 7
   \<and> editMessage 4 1 7 ''mine'' team_db
        = (Inl (ForbiddenException ''You can only edit your own messages''), team_db)
   \<and> deleteMessage 1 7 team_db
        = (Inl (ForbiddenException ''You can only delete your own messages''), team_db)"
proof -
  have absent: "message_findUnique team_db 99 = None"
    by (simp add: message_findUnique_def example_defs)
  have present: "message_findUnique team_db 1 = Some hello \<and> m_userId hello \<noteq> 7"
    by (simp add: message_findUnique_def example_defs)
  show ?thesis
    using absent present
      edit_delete_rejects_non_author [of team_db 99 4 7 "''mine''"]
      edit_delete_rejects_non_author [of team_db 1 4 7 "''mine''"]
    by simp
qed

text \<open>
  C10.  The author of a soft-deleted message edits it through the gateway.  No test of the
  deleted flag stands in the way: the call succeeds, the stored row now holds the new text
  and a fresh edit timestamp, its deleted flag is still set, the handler returns that row,
  and the room of the conversation named in the request receives \<open>messageUpdated\<close> with
  the new text.
\<close>

theorem edit_of_deleted_message_succeeds:
  assumes "sk_userId client = Some userId"
    and "message_findUnique d (ep_messageId payload) = Some message"
    and "m_userId message = userId"
    and "m_isDeleted message"
  shows "\<exists>d'. handleEditMessage now client payload d =
           (Inr (message\<lparr>m_content := ep_text payload, m_updatedAt := now\<rparr>),
            [RoomEmit (conversation_room (ep_conversationId payload)) ''messageUpdated''
               (MessageUpdated (ep_messageId payload) (ep_text payload))],
            d')
         \<and> editMessage now (ep_messageId payload) userId (ep_text payload) d =
           (Inr (message\<lparr>m_content := ep_text payload, m_updatedAt := now\<rparr>), d')
         \<and> message_findUnique d' (ep_messageId payload) =
           Some (message\<lparr>m_content := ep_text payload, m_updatedAt := now\<rparr>)
         \<and> m_isDeleted (message\<lparr>m_content := ep_text payload, m_updatedAt := now\<rparr>)"
proof -
  let ?f = "\<lambda>m. m\<lparr>m_content := ep_text payload, m_updatedAt := now\<rparr>"
  let ?d' = "d\<lparr>messages := update_first (\<lambda>x. m_id x = ep_messageId payload) ?f (messages d)\<rparr>"
  have found: "find (\<lambda>m. m_id m = ep_messageId payload) (messages d) = Some message"
    using assms(2) by (simp add: message_findUnique_def)
  then have key: "m_id message = ep_messageId payload"
    by (auto simp: find_Some_iff)
  have edit: "editMessage now (ep_messageId payload) userId (ep_text payload) d
                = (Inr (?f message), ?d')"
    using assms(2,3) by (simp add: editMessage_def message_update_def)
  have stored: "message_findUnique ?d' (ep_messageId payload) = Some (?f message)"
    using find_update_first [OF found, of ?f] key by (simp add: message_findUnique_def)
  have handler: "handleEditMessage now client payload d =
           (Inr (?f message),
            [RoomEmit (conversation_room (ep_conversationId payload)) ''messageUpdated''
               (MessageUpdated (ep_messageId payload) (ep_text payload))], ?d')"
    using assms(1) edit by (simp add: handleEditMessage_def)
  show ?thesis
    using edit stored handler assms(4) by auto
qed

theorem edit_of_deleted_message_succeeds_witness:
  "sk_userId eve_socket = Some 5 \<and> message_findUnique secret_db 1 = Some secret
   \<and> m_userId secret = 5 \<and> m_isDeleted secret
   \<and> (\<exists>d'. handleEditMessage 8 eve_socket rewrite secret_db =
           (Inr (secret\<lparr>m_content := ''again'', m_updatedAt := 8\<rparr>),
            [RoomEmit ''conversation_20'' ''messageUpdated'' (MessageUpdated 1 ''again'')], d')
         \<and> message_findUnique d' 1 = Some (secret\<lparr>m_content := ''again'', m_updatedAt := 8\<rparr>))"
proof -
  have a: "sk_userId eve_socket = Some 5"
    by (simp add: example_defs)
  have b: "message_findUnique secret_db (ep_messageId rewrite) = Some secret"
    by (simp add: message_findUnique_def example_defs)
  have c: "m_userId secret = 5" and e: "m_isDeleted secret"
    by (simp_all add: example_defs)
  have p: "ep_messageId rewrite = 1" "ep_conversationId rewrite = 20" "ep_text rewrite = ''again''"
    by (simp_all add: example_defs)
  show ?thesis
    using a b c e edit_of_deleted_message_succeeds [OF a b c e, of 8]
    by (auto simp: p room_of_team)
qed

section \<open>Sending a message\<close>

lemma participant_refers:
  assumes "foreign_keys_hold d" and "isParticipant d conversationId userId"
  shows "user_findUnique d userId \<noteq> None \<and> conversation_findUnique d conversationId \<noteq> None"
proof -
  obtain p where "participant_findUnique d userId conversationId = Some p"
    using assms(2) by (auto simp: isParticipant_def)
  then have "p \<in> set (participants d)" "p_userId p = userId" "p_conversationId p = conversationId"
    by (auto simp: participant_findUnique_def find_Some_iff)
  then show ?thesis
    using assms(1) by (auto simp: foreign_keys_hold_def list_all_iff)
qed

text \<open>
  C8.  On a store whose participant rows refer to stored users and conversations, a socket
  whose user is a participant of the conversation submits \<open>sendMessage\<close>: a message with
  that author, that text and that conversation is appended to the messages table; the first
  event emitted is \<open>receiveMessage\<close> with the saved message, to the room whose name is
  \<open>conversation_\<close> followed by the printed conversation id (its decimal numeral, for an
  id up to \<open>2^53\<close> in size); the saved message is returned; and afterwards the
  conversation row has the new message's id as \<open>lastMessageId\<close> and the current time as
  \<open>updatedAt\<close>.  When the user is not a participant the handler answers with an error
  object, emits nothing and leaves the store unchanged.
\<close>

theorem handleMessage_persists_and_broadcasts:
  assumes "sk_userId client = Some senderId"
  shows "(foreign_keys_hold d \<and> isParticipant d (sp_conversationId payload) senderId \<longrightarrow>
          (\<exists>saved rest d' c.
             handleMessage now client payload d =
               (Inr (Saved saved),
                RoomEmit (''conversation_'' @ show_number (sp_conversationId payload))
                  ''receiveMessage'' (SavedMessage saved) # rest,
                d')
             \<and> m_userId (mv_message saved) = senderId
             \<and> m_content (mv_message saved) = sp_text payload
             \<and> m_conversationId (mv_message saved) = sp_conversationId payload
             \<and> messages d' = messages d @ [mv_message saved]
             \<and> conversation_findUnique d' (sp_conversationId payload) = Some c
             \<and> c_lastMessageId c = Some (m_id (mv_message saved))
             \<and> c_updatedAt c = now))
       \<and> (\<bar>sp_conversationId payload\<bar> \<le> 2 ^ 53 \<longrightarrow>
            decimal_value (show_number (sp_conversationId payload))
              = Some (sp_conversationId payload))
       \<and> (\<not> isParticipant d (sp_conversationId payload) senderId \<longrightarrow>
            handleMessage now client payload d =
              (Inr (ErrorReply ''Unauthorized: You are not a member of this conversation''),
               [], d))"
proof (intro conjI impI)
  assume "\<not> isParticipant d (sp_conversationId payload) senderId"
  then show "handleMessage now client payload d =
              (Inr (ErrorReply ''Unauthorized: You are not a member of this conversation''),
               [], d)"
    using assms by (simp add: handleMessage_def)
next
  assume "\<bar>sp_conversationId payload\<bar> \<le> 2 ^ 53"
  then show "decimal_value (show_number (sp_conversationId payload))
               = Some (sp_conversationId payload)"
    by (rule decimal_value_show_number)
next
  let ?cid = "sp_conversationId payload"
  assume h: "foreign_keys_hold d \<and> isParticipant d ?cid senderId"
  then have refs: "user_findUnique d senderId \<noteq> None" "conversation_findUnique d ?cid \<noteq> None"
    using participant_refers [of d ?cid senderId] by simp_all
  then obtain c u where c: "find (\<lambda>c. c_id c = ?cid) (conversations d) = Some c"
    and u: "user_findUnique d senderId = Some u"
    by (auto simp: conversation_findUnique_def)
  then have cid: "c_id c = ?cid" by (auto simp: find_Some_iff)
  let ?row = "\<lparr>m_id = nextMessageId d, m_userId = senderId, m_conversationId = ?cid,
               m_content = sp_text payload, m_isDeleted = False, m_isRead = False,
               m_createdAt = now, m_updatedAt = now\<rparr>"
  let ?d1 = "d\<lparr>messages := messages d @ [?row], nextMessageId := nextMessageId d + 1\<rparr>"
  let ?f = "\<lambda>c. c\<lparr>c_updatedAt := now, c_lastMessageId := Some (nextMessageId d)\<rparr>"
  let ?d2 = "?d1\<lparr>conversations := update_first (\<lambda>c. c_id c = ?cid) ?f (conversations ?d1)\<rparr>"
  let ?saved = "\<lparr>mv_message = ?row, mv_user = Some (select_brief u)\<rparr>"
  have view: "with_user ?d1 ?row = ?saved"
    using u by (simp add: with_user_def user_findUnique_def)
  have create: "createMessage now senderId ?cid (sp_text payload) d = (Inr ?saved, ?d2)"
    using c u view by (simp add: createMessage_def conversation_findUnique_def Let_def)
  have stored: "conversation_findUnique ?d2 ?cid = Some (?f c)"
    using find_update_first [OF c, of ?f] cid by (simp add: conversation_findUnique_def)
  have "\<exists>rest. handleMessage now client payload d =
          (Inr (Saved ?saved),
           RoomEmit (''conversation_'' @ show_number ?cid) ''receiveMessage''
             (SavedMessage ?saved) # rest, ?d2)"
    using assms h create
    by (simp add: handleMessage_def conversation_room_def Let_def split: option.split)
  then show "\<exists>saved rest d' c.
             handleMessage now client payload d =
               (Inr (Saved saved),
                RoomEmit (''conversation_'' @ show_number (sp_conversationId payload))
                  ''receiveMessage'' (SavedMessage saved) # rest,
                d')
             \<and> m_userId (mv_message saved) = senderId
             \<and> m_content (mv_message saved) = sp_text payload
             \<and> m_conversationId (mv_message saved) = sp_conversationId payload
             \<and> messages d' = messages d @ [mv_message saved]
             \<and> conversation_findUnique d' (sp_conversationId payload) = Some c
             \<and> c_lastMessageId c = Some (m_id (mv_message saved))
             \<and> c_updatedAt c = now"
    using stored by auto
qed

theorem handleMessage_persists_and_broadcasts_witness:
  "sk_userId eve_socket = Some 5 \<and> foreign_keys_hold team_db \<and> isParticipant team_db 20 5
   \<and> (\<exists>saved rest d' c.
         handleMessage 4 eve_socket hi team_db =
           (Inr (Saved saved),
            RoomEmit ''conversation_20'' ''receiveMessage'' (SavedMessage saved) # rest, d')
         \<and> m_userId (mv_message saved) = 5 \<and> m_content (mv_message saved) = ''hi''
         \<and> messages d' = messages team_db @ [mv_message saved]
         \<and> conversation_findUnique d' 20 = Some c
         \<and> c_lastMessageId c = Some (m_id (mv_message saved)) \<and> c_updatedAt c = 4)
   \<and> decimal_value ''20'' = Some 20
   \<and> sk_userId stranger_socket = Some 9 \<and> \<not> isParticipant team_db 20 9
   \<and> handleMessage 4 stranger_socket hi team_db =
        (Inr (ErrorReply ''Unauthorized: You are not a member of this conversation''),
         [], team_db)"
proof -
  have a: "sk_userId eve_socket = Some 5" and b: "sk_userId stranger_socket = Some 9"
    by (simp_all add: example_defs)
  have p: "sp_conversationId hi = 20" "sp_text hi = ''hi''"
    by (simp_all add: example_defs)
  have n: "show_number 20 = ''20''"
    by (simp add: show_number_def show_number_nat_def show_nat.simps digit_char_def)
  have member: "foreign_keys_hold team_db \<and> isParticipant team_db 20 5"
    by (simp add: foreign_keys_hold_def isParticipant_def participant_findUnique_def
        conversation_findUnique_def user_findUnique_def example_defs)
  have stranger: "\<not> isParticipant team_db 20 9"
    by (simp add: isParticipant_def participant_findUnique_def example_defs)
  have small: "\<bar>20 :: int\<bar> \<le> 2 ^ 53" by simp
  note eve = handleMessage_persists_and_broadcasts [OF a, of team_db hi 4, unfolded p n]
  note other = handleMessage_persists_and_broadcasts [OF b, of team_db hi 4, unfolded p n]
  have first: "\<exists>saved rest d' c.
         handleMessage 4 eve_socket hi team_db =
           (Inr (Saved saved),
            RoomEmit ''conversation_20'' ''receiveMessage'' (SavedMessage saved) # rest, d')
         \<and> m_userId (mv_message saved) = 5 \<and> m_content (mv_message saved) = ''hi''
         \<and> messages d' = messages team_db @ [mv_message saved]
         \<and> conversation_findUnique d' 20 = Some c
         \<and> c_lastMessageId c = Some (m_id (mv_message saved)) \<and> c_updatedAt c = 4"
    using member eve by simp blast
  have second: "decimal_value ''20'' = Some 20"
    using small eve by blast
  have third: "handleMessage 4 stranger_socket hi team_db =
        (Inr (ErrorReply ''Unauthorized: You are not a member of this conversation''),
         [], team_db)"
    using stranger other by blast
  show ?thesis
    using a b member stranger first second third by blast
qed

section \<open>Removing a participant\<close>

text \<open>
  A requester who is not in the conversation is refused with the authorization error, not
  with the not-found error: user 9 asks to remove user 7 from conversation 20.
\<close>

theorem removeParticipant_non_member_forbidden:
  "participant_findUnique team_db 9 20 = None
   \<and> removeParticipant 20 7 9 team_db
       = (Inl (ForbiddenException ''You are not a member of this conversation''), team_db)"
  by (simp add: removeParticipant_def participant_findUnique_def example_defs)

text \<open>
  C9, amended.  \<open>removeParticipant\<close> fails with the authorization error when the requester
  is not a participant of the conversation; with the not-found error when the requester is
  a participant and the target is not; and with the authorization error when both are
  participants and the requester is neither the target nor an admin.  Each failure leaves
  the store unchanged.
\<close>

theorem removeParticipant_error_order:
  "(participant_findUnique d requesterId conversationId = None \<longrightarrow>
      removeParticipant conversationId targetUserId requesterId d
        = (Inl (ForbiddenException ''You are not a member of this conversation''), d))
   \<and> (participant_findUnique d requesterId conversationId \<noteq> None
        \<and> participant_findUnique d targetUserId conversationId = None \<longrightarrow>
      removeParticipant conversationId targetUserId requesterId d
        = (Inl (NotFoundException ''Target user is not a participant in this conversation''),
           d))
   \<and> (\<forall>requester. participant_findUnique d requesterId conversationId = Some requester
        \<and> participant_findUnique d targetUserId conversationId \<noteq> None
        \<and> \<not> p_isAdmin requester \<and> targetUserId \<noteq> requesterId \<longrightarrow>
      removeParticipant conversationId targetUserId requesterId d
        = (Inl (ForbiddenException ''Only admins can remove other members''), d))"
  by (auto simp: removeParticipant_def)

theorem removeParticipant_error_order_witness:
  "participant_findUnique team_db 9 20 = None
   \<and> removeParticipant 20 7 9 team_db
       = (Inl (ForbiddenException ''You are not a member of this conversation''), team_db)
   \<and> participant_findUnique team_db 7 20 \<noteq> None \<and> participant_findUnique team_db 9 20 = None
   \<and> removeParticipant 20 9 7 team_db
       = (Inl (NotFoundException ''Target user is not a participant in this conversation''),
          team_db)
   \<and> participant_findUnique team_db 7 20 = Some gil_in_team
   \<and> participant_findUnique team_db 5 20 \<noteq> None \<and> \<not> p_isAdmin gil_in_team \<and> (5::int) \<noteq> 7
   \<and> removeParticipant 20 5 7 team_db
       = (Inl (ForbiddenException ''Only admins can remove other members''), team_db)"
proof -
  have a: "participant_findUnique team_db 9 20 = None"
    and b: "participant_findUnique team_db 7 20 = Some gil_in_team"
    and c: "participant_findUnique team_db 5 20 \<noteq> None"
    and e: "\<not> p_isAdmin gil_in_team"
    by (simp_all add: participant_findUnique_def example_defs)
  show ?thesis
    using a b c e
      removeParticipant_error_order [of team_db 9 20 7]
      removeParticipant_error_order [of team_db 7 20 9]
      removeParticipant_error_order [of team_db 7 20 5]
    by simp
qed

section \<open>Leaving a conversation\<close>

text \<open>
  The transactional path, \<open>deleteConversation\<close>.  When it succeeds and nobody is left in
  the conversation, neither the conversation row nor any of its messages is left either
  (conversation ids being the key of their table).
\<close>

lemma deleteConversation_cascade:
  assumes "distinct (map c_id (conversations d))"
    and "deleteConversation conversationId userId d = (Inr r, d')"
    and "participants_of d' conversationId = []"
  shows "conversation_findUnique d' conversationId = None
         \<and> filter (\<lambda>m. m_conversationId m = conversationId) (messages d') = []"
proof -
  obtain participant where p: "participant_findUnique d userId conversationId = Some participant"
    using assms(2) by (auto simp: deleteConversation_def split: option.splits)
  let ?d1 = "d\<lparr>participants :=
                 delete_first (\<lambda>p. p_userId p = userId \<and> p_conversationId p = conversationId)
                   (participants d)\<rparr>"
  let ?d2 = "?d1\<lparr>messages := filter (\<lambda>m. m_conversationId m \<noteq> conversationId) (messages ?d1)\<rparr>"
  show ?thesis
  proof (cases "sort_key p_createdAt (participants_of ?d1 conversationId)")
    case Nil
    then have "(case conversation_findUnique ?d2 conversationId of
                  None \<Rightarrow> (Inl (PrismaClientKnownRequestError ''P2025''), d)
                | Some _ \<Rightarrow>
                    (Inr ''Conversation fully deleted'',
                     ?d2\<lparr>conversations :=
                           delete_first (\<lambda>c. c_id c = conversationId) (conversations ?d2)\<rparr>))
               = (Inr r, d')"
      using assms(2) p by (simp add: deleteConversation_def Let_def)
    then have d': "d' = ?d2\<lparr>conversations :=
                           delete_first (\<lambda>c. c_id c = conversationId) (conversations ?d2)\<rparr>"
      by (simp split: option.splits)
    have "conversation_findUnique d' conversationId = None"
      unfolding d' conversation_findUnique_def
      using find_delete_first_distinct [OF assms(1), of conversationId] by simp
    moreover have "filter (\<lambda>m. m_conversationId m = conversationId) (messages d') = []"
      unfolding d' by (simp add: filter_empty_conv)
    ultimately show ?thesis by simp
  next
    case (Cons oldest rest)
    then have "participants_of ?d1 conversationId \<noteq> []" by auto
    then have "conversationId \<in> set (map p_conversationId (participants ?d1))"
      by (simp add: participants_of_empty)
    moreover have "map p_conversationId (participants d') = map p_conversationId (participants ?d1)"
      using assms(2) p Cons
      by (auto simp: deleteConversation_def Let_def map_update_first split: if_splits)
    ultimately have "participants_of d' conversationId \<noteq> []"
      by (simp add: participants_of_empty)
    then show ?thesis using assms(3) by simp
  qed
qed

text \<open>
  On the same path a conversation that had exactly one admin and keeps a participant still
  has exactly one admin afterwards, and when the leaver was that admin the new one has the
  least \<open>createdAt\<close> among those who remain (participant ids being the key of their
  table).
\<close>

lemma deleteConversation_rotation:
  assumes ids: "distinct (map p_id (participants d))"
    and one: "length (filter p_isAdmin (participants_of d conversationId)) = 1"
    and leaver: "participant_findUnique d userId conversationId = Some participant"
    and call: "deleteConversation conversationId userId d = (Inr r, d')"
    and rem: "participants_of d' conversationId \<noteq> []"
  shows "\<exists>a. filter p_isAdmin (participants_of d' conversationId) = [a]
           \<and> (p_isAdmin participant \<longrightarrow>
                (\<forall>q\<in>set (participants_of d' conversationId). p_createdAt a \<le> p_createdAt q))"
proof -
  let ?P = "\<lambda>p. p_userId p = userId \<and> p_conversationId p = conversationId"
  let ?Q = "\<lambda>p. p_conversationId p = conversationId \<and> p_isAdmin p"
  let ?ys = "delete_first ?P (participants d)"
  let ?d1 = "d\<lparr>participants := ?ys\<rparr>"
  let ?f = "\<lambda>p. p\<lparr>p_isAdmin := True\<rparr>"
  have found: "find ?P (participants d) = Some participant"
    using leaver by (simp add: participant_findUnique_def)
  then have in_conv: "p_conversationId participant = conversationId"
    by (auto simp: find_Some_iff)
  have admins: "filter p_isAdmin (participants_of x conversationId) = filter ?Q (participants x)" for x
    by (simp add: participants_of_def conj_commute)
  have count: "length (filter ?Q ?ys) = 1 - (if p_isAdmin participant then 1 else 0)"
    using filter_delete_first [OF found, of ?Q] one in_conv by (simp add: admins)
  obtain oldest rest
    where sorted: "sort_key p_createdAt (participants_of ?d1 conversationId) = oldest # rest"
  proof (cases "sort_key p_createdAt (participants_of ?d1 conversationId)")
    case Nil
    then have "participants_of ?d1 conversationId = []" by (rule sort_key_Nil)
    moreover have "participants d' = ?ys"
      using call leaver Nil
      by (auto simp: deleteConversation_def Let_def split: option.splits)
    then have "participants_of d' conversationId = participants_of ?d1 conversationId"
      by (simp add: participants_of_def)
    ultimately show ?thesis using rem by simp
  next
    case (Cons a as)
    then show ?thesis using that by blast
  qed
  have d': "d' = (if p_isAdmin participant
                  then ?d1\<lparr>participants := update_first (\<lambda>p. p_id p = p_id oldest) ?f ?ys\<rparr>
                  else ?d1)"
    using call leaver sorted by (auto simp: deleteConversation_def Let_def split: if_splits)
  show ?thesis
  proof (cases "p_isAdmin participant")
    case False
    then have "length (filter p_isAdmin (participants_of d' conversationId)) = 1"
      using count d' by (simp add: admins)
    then obtain a where "filter p_isAdmin (participants_of d' conversationId) = [a]"
      by (auto simp: length_Suc_conv)
    then show ?thesis using False by simp
  next
    case True
    have least: "\<forall>q\<in>set (participants_of ?d1 conversationId). p_createdAt oldest \<le> p_createdAt q"
      using sort_key_head_least [OF sorted] .
    have "oldest \<in> set (sort_key p_createdAt (participants_of ?d1 conversationId))"
      using sorted by simp
    then have oldest: "oldest \<in> set ?ys" "p_conversationId oldest = conversationId"
      by (auto simp: participants_of_def)
    have dist: "distinct (map p_id ?ys)"
      using ids by (rule distinct_delete_first)
    let ?g = "\<lambda>p. if p = oldest then ?f p else p"
    have upd: "participants d' = map ?g ?ys"
      using d' True update_first_distinct [OF dist oldest(1), of ?f] by simp
    have none: "\<forall>p\<in>set ?ys. \<not> ?Q p"
      using count True by (simp add: filter_empty_conv)
    have "filter ?Q (map ?g ?ys) = map ?g (filter (\<lambda>p. p = oldest) ?ys)"
      using none oldest(2) by (intro filter_map_single) simp_all
    also have "\<dots> = [?f oldest]"
      using filter_eq_distinct [OF distinct_map [THEN iffD1, THEN conjunct1, OF dist] oldest(1)]
      by simp
    finally have single: "filter p_isAdmin (participants_of d' conversationId) = [?f oldest]"
      by (simp add: admins upd)
    have "participants_of d' conversationId = map ?g (participants_of ?d1 conversationId)"
      unfolding participants_of_def upd
      by (simp add: filter_map_invariant [of p_conversationId ?g])
    then have "\<forall>q\<in>set (participants_of d' conversationId). p_createdAt (?f oldest) \<le> p_createdAt q"
      using least by auto
    then show ?thesis using single by simp
  qed
qed

lemma deleteConversation_examples:
  "deleteConversation 20 5 solo_db
     = (Inr ''Conversation fully deleted'',
        solo_db\<lparr>participants := [], messages := [], conversations := []\<rparr>)"
  "deleteConversation 20 5 team_db
     = (Inr ''You left the conversation'',
        team_db\<lparr>participants := [gil_in_team\<lparr>p_isAdmin := True\<rparr>]\<rparr>)"
  by (simp_all add: deleteConversation_def participant_findUnique_def participants_of_def
      conversation_findUnique_def example_defs)

text \<open>
  C1.  The claim: a successful removal that empties the participant set, by
  \<open>removeParticipant\<close> or by \<open>deleteConversation\<close>, deletes the conversation and its
  messages.  \<open>removeParticipant\<close> deletes the participant row and nothing else: user 5, the
  only member of conversation 20, removes themself; the call succeeds, conversation 20 has
  no participant left, and its row and its message are still stored.
\<close>

theorem removeParticipant_last_member_keeps_conversation:
  "removeParticipant 20 5 5 solo_db = (Inr eve_in_team, solo_db\<lparr>participants := []\<rparr>)
   \<and> participants_of (solo_db\<lparr>participants := []\<rparr>) 20 = []
   \<and> conversation_findUnique (solo_db\<lparr>participants := []\<rparr>) 20 = Some team
   \<and> messages (solo_db\<lparr>participants := []\<rparr>) = [hello]"
  by (simp add: removeParticipant_def participant_findUnique_def participants_of_def
      conversation_findUnique_def example_defs)

text \<open>
  C2.  The claim: after any successful leave or removal that leaves a participant, a group
  has exactly one admin, the earliest-joined remaining participant when the admin left.
  \<open>removeParticipant\<close> promotes nobody: user 5, admin of group 20, removes themself; the
  call succeeds, user 7 remains and is not an admin, so the group has no admin.
\<close>

theorem removeParticipant_admin_leave_no_rotation:
  "removeParticipant 20 5 5 team_db = (Inr eve_in_team, team_db\<lparr>participants := [gil_in_team]\<rparr>)
   \<and> participants_of (team_db\<lparr>participants := [gil_in_team]\<rparr>) 20 = [gil_in_team]
   \<and> filter p_isAdmin (participants_of (team_db\<lparr>participants := [gil_in_team]\<rparr>) 20) = []"
  by (simp add: removeParticipant_def participant_findUnique_def participants_of_def
      example_defs)

section \<open>Reading soft-deleted messages\<close>

text \<open>
  The paginated read substitutes the placeholder for the content of every soft-deleted
  message it returns.
\<close>

lemma getMessagesByConversation_placeholder:
  assumes "getMessagesByConversation conversationId limit page d = Inr views"
    and "v \<in> set views" and "m_isDeleted (mv_message v)"
  shows "m_content (mv_message v) = deleted_placeholder"
  using assms
  by (auto simp: getMessagesByConversation_def Let_def split: if_splits)

lemma getMessagesByConversation_example:
  "map_sum (\<lambda>e. e) (map (m_content \<circ> mv_message)) (getMessagesByConversation 20 50 1 secret_db)
     = Inr [''This message was deleted'']"
  by (simp add: getMessagesByConversation_def take_skip_def with_user_def newest_first_def
      deleted_placeholder_def example_defs)

text \<open>
  C3.  The claim: every read path returns the placeholder for a soft-deleted message, never
  its stored content.  The conversation list of a user includes the newest message of each
  conversation as stored: for user 7, participant of conversation 20 whose only message is
  soft-deleted, \<open>getUserConversations\<close> returns that message with its stored content.
\<close>

theorem getUserConversations_surfaces_deleted_content:
  "isParticipant secret_db 20 7
   \<and> map cs_messages (getUserConversations 7 secret_db) = [[secret]]
   \<and> m_isDeleted secret \<and> m_content secret = ''secret''
   \<and> m_content secret \<noteq> deleted_placeholder"
  by (simp add: getUserConversations_def isParticipant_def participant_findUnique_def
      participants_of_def newest_first_def deleted_placeholder_def example_defs)

section \<open>Creating a group\<close>

lemma insert_participants_rows:
  "insert_participants now cid ms d = (None, d') \<Longrightarrow>
     \<exists>rows. participants d' = participants d @ rows
       \<and> map (\<lambda>p. (p_userId p, p_isAdmin p)) rows = ms
       \<and> list_all (\<lambda>p. p_conversationId p = cid) rows
       \<and> conversations d' = conversations d \<and> users d' = users d
       \<and> messages d' = messages d \<and> nextConversationId d' = nextConversationId d"
proof (induction ms arbitrary: d)
  case Nil
  then show ?case by simp
next
  case (Cons m ms)
  obtain userId isAdmin where m: "m = (userId, isAdmin)" by (cases m)
  let ?row = "\<lparr>p_id = nextParticipantId d, p_userId = userId, p_conversationId = cid,
               p_isAdmin = isAdmin, p_createdAt = now\<rparr>"
  let ?d2 = "d\<lparr>nextParticipantId := nextParticipantId d + 1,
               participants := participants d @ [?row]\<rparr>"
  have "insert_participants now cid ms ?d2 = (None, d')"
    using Cons.prems m by (simp add: Let_def split: if_splits)
  then obtain rows where "participants d' = participants ?d2 @ rows"
    "map (\<lambda>p. (p_userId p, p_isAdmin p)) rows = ms"
    "list_all (\<lambda>p. p_conversationId p = cid) rows"
    "conversations d' = conversations ?d2" "users d' = users ?d2"
    "messages d' = messages ?d2" "nextConversationId d' = nextConversationId ?d2"
    using Cons.IH by blast
  then show ?case
    using m by (intro exI [of _ "?row # rows"]) simp
qed

lemma insert_participants_errors:
  "insert_participants now cid ms d = (Some e, d') \<Longrightarrow>
     e = PrismaClientKnownRequestError ''P2002'' \<or> e = PrismaClientKnownRequestError ''P2003''"
proof (induction ms arbitrary: d)
  case Nil
  then show ?case by simp
next
  case (Cons m ms)
  obtain userId isAdmin where m: "m = (userId, isAdmin)" by (cases m)
  show ?case
    using Cons.prems Cons.IH m by (auto simp: Let_def split: if_splits)
qed

lemma conversation_create_Inr:
  assumes "conversation_create now name isGroup members d = (Inr c, d')"
  shows "c = \<lparr>c_id = nextConversationId d, c_name = name, c_isGroup = isGroup,
              c_lastMessageId = None, c_updatedAt = now\<rparr>
         \<and> insert_participants now (nextConversationId d) members
              (d\<lparr>conversations := conversations d @ [c],
                 nextConversationId := nextConversationId d + 1\<rparr>) = (None, d')"
  using assms
  by (auto simp: conversation_create_def Let_def split: prod.splits option.splits)

lemma conversation_create_Inl:
  assumes "conversation_create now name isGroup members d = (Inl e, d')"
  shows "e = PrismaClientKnownRequestError ''P2002''
         \<or> e = PrismaClientKnownRequestError ''P2003''"
  using assms insert_participants_errors
  by (auto simp: conversation_create_def Let_def split: prod.splits option.splits)

text \<open>
  The validation error is raised exactly for a missing or empty list.  On success the new
  rows are the creator, flagged admin, followed by the listed users other than the creator,
  none of them flagged.
\<close>

lemma createGroupConversation_validation:
  "(fst (createGroupConversation now name adminId participantIds d)
      = Inl (BadRequestException
               ''A group must have at least one participant other than the admin''))
   = (participantIds = None \<or> participantIds = Some [])"
proof (cases participantIds)
  case None
  then show ?thesis by (simp add: createGroupConversation_def)
next
  case (Some ids)
  show ?thesis
  proof (cases "ids = []")
    case True
    then show ?thesis using Some by (simp add: createGroupConversation_def)
  next
    case False
    define members where
      "members = (adminId, True) # map (\<lambda>id. (id, False)) (filter (\<lambda>id. id \<noteq> adminId) ids)"
    have call: "createGroupConversation now name adminId participantIds d
                  = conversation_create now (Some name) True members d"
      using Some False by (simp add: createGroupConversation_def members_def)
    obtain r d' where r: "conversation_create now (Some name) True members d = (r, d')"
      by (cases "conversation_create now (Some name) True members d")
    have "r \<noteq> Inl (BadRequestException
                      ''A group must have at least one participant other than the admin'')"
    proof (cases r)
      case (Inl e)
      then show ?thesis using r conversation_create_Inl [of now "Some name" True members d e d']
        by auto
    next
      case (Inr c)
      then show ?thesis by simp
    qed
    then show ?thesis
      using Some False call r by simp
  qed
qed

lemma createGroupConversation_members:
  assumes "createGroupConversation now name adminId (Some ids) d = (Inr c, d')"
  shows "c_isGroup c \<and> c_id c = nextConversationId d
         \<and> (\<exists>rows. participants d' = participants d @ rows
               \<and> map (\<lambda>p. (p_userId p, p_isAdmin p)) rows
                   = (adminId, True) # map (\<lambda>id. (id, False)) (filter (\<lambda>id. id \<noteq> adminId) ids)
               \<and> list_all (\<lambda>p. p_conversationId p = c_id c) rows)"
proof -
  define members where
    "members = (adminId, True) # map (\<lambda>id. (id, False)) (filter (\<lambda>id. id \<noteq> adminId) ids)"
  have call: "conversation_create now (Some name) True members d = (Inr c, d')"
    using assms by (simp add: createGroupConversation_def members_def split: if_splits)
  note created = conversation_create_Inr [OF call]
  then have c: "c_isGroup c" "c_id c = nextConversationId d"
    by simp_all
  obtain rows where "participants d' = participants d @ rows"
    "map (\<lambda>p. (p_userId p, p_isAdmin p)) rows = members"
    "list_all (\<lambda>p. p_conversationId p = nextConversationId d) rows"
    using insert_participants_rows [OF created [THEN conjunct2]] by auto
  then have "\<exists>rows. participants d' = participants d @ rows
               \<and> map (\<lambda>p. (p_userId p, p_isAdmin p)) rows = members
               \<and> list_all (\<lambda>p. p_conversationId p = c_id c) rows"
    using c by (intro exI [of _ rows]) simp
  then show ?thesis using c by (simp add: members_def)
qed

text \<open>
  C7.  The claim: \<open>CreateGroup\<close> fails exactly on an empty list and every success yields
  at least two participants with the creator as only admin.  The emptiness test runs before
  the creator is filtered out of the list: a list that names only the creator passes it,
  and the group is created with the creator as its single participant.  User 5, a stored
  user, creates a group from the list that holds user 5 alone.
\<close>

theorem createGroup_of_creator_alone_accepted:
  "user_findUnique team_db 5 = Some eve
   \<and> createGroupConversation 9 ''solo'' 5 (Some [5]) team_db
     = (Inr \<lparr>c_id = 21, c_name = Some ''solo'', c_isGroup = True, c_lastMessageId = None,
             c_updatedAt = 9\<rparr>,
        team_db\<lparr>conversations :=
                  [team,
                   \<lparr>c_id = 21, c_name = Some ''solo'', c_isGroup = True,
                     c_lastMessageId = None, c_updatedAt = 9\<rparr>],
                participants :=
                  [eve_in_team, gil_in_team,
                   \<lparr>p_id = 3, p_userId = 5, p_conversationId = 21, p_isAdmin = True,
                     p_createdAt = 9\<rparr>],
                nextConversationId := 22, nextParticipantId := 4\<rparr>)
   \<and> participants_of
        (snd (createGroupConversation 9 ''solo'' 5 (Some [5]) team_db)) 21
     = [\<lparr>p_id = 3, p_userId = 5, p_conversationId = 21, p_isAdmin = True, p_createdAt = 9\<rparr>]"
  by (simp add: createGroupConversation_def conversation_create_def participants_of_def
      participant_findUnique_def user_findUnique_def Let_def example_defs)

section \<open>Private conversations\<close>

subsection \<open>Calls that run one after the other\<close>

lemma is_private_of_commute: "is_private_of d b a = is_private_of d a b"
  by (rule ext) (auto simp: is_private_of_def)

lemma private_found:
  assumes "a \<noteq> b" and "find (is_private_of d a b) (conversations d) = Some c"
  shows "findOrCreatePrivateConversation now a b d = (Inr (include_participants d c), d)"
  using assms
  by (simp add: findOrCreatePrivateConversation_def private_lookup_def private_resume_def)

lemma private_calls_found:
  assumes "a \<noteq> b" and "find (is_private_of d a b) (conversations d) = Some c"
    and "set calls \<subseteq> {(a, b), (b, a)}"
  shows "private_calls now calls d = (map (\<lambda>_. Inr (include_participants d c)) calls, d)"
  using assms(3)
proof (induction calls)
  case Nil
  then show ?case by simp
next
  case (Cons call calls)
  then have "call = (a, b) \<or> call = (b, a)" by auto
  then have "findOrCreatePrivateConversation now (fst call) (snd call) d
               = (Inr (include_participants d c), d)"
    using assms(1,2) private_found [of a b d c now] private_found [of b a d c now]
    by (auto simp: is_private_of_commute [of d b a])
  moreover have "private_calls now calls d = (map (\<lambda>_. Inr (include_participants d c)) calls, d)"
    using Cons by simp
  ultimately show ?case by (cases call) simp
qed

lemma private_created:
  assumes "a \<noteq> b" and none: "find (is_private_of d a b) (conversations d) = None"
    and fresh: "conv_ids_fresh d"
    and stored: "user_findUnique d a \<noteq> None" "user_findUnique d b \<noteq> None"
  shows "\<exists>d'. findOrCreatePrivateConversation now a b d
                 = (Inr (include_participants d' (new_private now d)), d')
              \<and> conversations d' = conversations d @ [new_private now d]
              \<and> filter (is_private_of d' a b) (conversations d') = [new_private now d]"
proof -
  let ?n = "nextConversationId d"
  let ?c = "new_private now d"
  let ?rows = "[\<lparr>p_id = nextParticipantId d, p_userId = a, p_conversationId = ?n,
                  p_isAdmin = False, p_createdAt = now\<rparr>,
                \<lparr>p_id = nextParticipantId d + 1, p_userId = b, p_conversationId = ?n,
                  p_isAdmin = False, p_createdAt = now\<rparr>]"
  let ?d' = "d\<lparr>conversations := conversations d @ [?c],
               participants := participants d @ ?rows,
               nextConversationId := ?n + 1,
               nextParticipantId := nextParticipantId d + 2\<rparr>"
  have unused: "find (\<lambda>p. p_userId p = u \<and> p_conversationId p = ?n) (participants d) = None"
    for u
    using fresh by (auto simp: conv_ids_fresh_def list_all_iff find_None_iff)
  have users: "find (\<lambda>u. u_id u = a) (users d) \<noteq> None" "find (\<lambda>u. u_id u = b) (users d) \<noteq> None"
    using stored by (simp_all add: user_findUnique_def)
  have create: "conversation_create now None False [(a, False), (b, False)] d = (Inr ?c, ?d')"
    using assms(1) unused users
    by (simp add: conversation_create_def new_private_def Let_def participant_findUnique_def
        user_findUnique_def find_append_split)
  have call: "findOrCreatePrivateConversation now a b d = (Inr (include_participants ?d' ?c), ?d')"
    using assms(1) none create
    by (simp add: findOrCreatePrivateConversation_def private_lookup_def private_resume_def)
  have old: "\<not> is_private_of ?d' a b x" if x: "x \<in> set (conversations d)" for x
  proof -
    have "c_id x \<noteq> ?n"
      using fresh x by (auto simp: conv_ids_fresh_def list_all_iff)
    then have "participant_findUnique ?d' u (c_id x) = participant_findUnique d u (c_id x)" for u
      by (simp add: participant_findUnique_def find_append_split split: option.split)
    moreover have "\<not> is_private_of d a b x"
      using none x by (auto simp: find_None_iff)
    ultimately show ?thesis by (simp add: is_private_of_def)
  qed
  have new: "is_private_of ?d' a b ?c"
    using assms(1)
    by (simp add: is_private_of_def participant_findUnique_def find_append_split new_private_def
        split: option.split)
  have "filter (is_private_of ?d' a b) (conversations d) = []"
    using old by (simp add: filter_empty_conv)
  then have "filter (is_private_of ?d' a b) (conversations ?d') = [?c]"
    using new by simp
  then show ?thesis using call by (intro exI [of _ ?d']) simp
qed

text \<open>
  The bound on conversation ids holds in the empty store and survives every creation,
  refused or not.
\<close>

lemma insert_participants_frame:
  "insert_participants now cid ms d = (r, d') \<Longrightarrow>
     nextConversationId d' = nextConversationId d \<and> conversations d' = conversations d
     \<and> list_all (\<lambda>p. p \<in> set (participants d) \<or> p_conversationId p = cid) (participants d')"
proof (induction ms arbitrary: d)
  case Nil
  then show ?case by (auto simp: list_all_iff)
next
  case (Cons m ms)
  obtain userId isAdmin where m: "m = (userId, isAdmin)" by (cases m)
  let ?row = "\<lparr>p_id = nextParticipantId d, p_userId = userId, p_conversationId = cid,
               p_isAdmin = isAdmin, p_createdAt = now\<rparr>"
  let ?d2 = "d\<lparr>nextParticipantId := nextParticipantId d + 1,
               participants := participants d @ [?row]\<rparr>"
  show ?case
  proof (cases "participant_findUnique d userId cid \<noteq> None \<or> user_findUnique d userId = None")
    case True
    then show ?thesis
      using Cons.prems m by (auto simp: Let_def list_all_iff split: if_splits)
  next
    case False
    then have unused: "participant_findUnique d userId cid = None"
      and stored: "user_findUnique d userId \<noteq> None"
      by auto
    have "insert_participants now cid ms ?d2 = (r, d')"
      using Cons.prems m unused stored by (simp add: Let_def)
    then have "nextConversationId d' = nextConversationId ?d2 \<and> conversations d' = conversations ?d2
      \<and> list_all (\<lambda>p. p \<in> set (participants ?d2) \<or> p_conversationId p = cid) (participants d')"
      by (rule Cons.IH)
    then show ?thesis by (auto simp: list_all_iff)
  qed
qed

lemma conv_ids_fresh_empty: "conv_ids_fresh empty_db"
  by (simp add: conv_ids_fresh_def empty_db_def)

lemma conv_ids_fresh_create:
  assumes "conv_ids_fresh d"
  shows "conv_ids_fresh (snd (conversation_create now name isGroup members d))"
proof -
  let ?c = "\<lparr>c_id = nextConversationId d, c_name = name, c_isGroup = isGroup,
             c_lastMessageId = None, c_updatedAt = now\<rparr>"
  let ?d1 = "d\<lparr>conversations := conversations d @ [?c],
               nextConversationId := nextConversationId d + 1\<rparr>"
  obtain r d2 where r: "insert_participants now (nextConversationId d) members ?d1 = (r, d2)"
    by (cases "insert_participants now (nextConversationId d) members ?d1")
  note frame = insert_participants_frame [OF r]
  have result: "snd (conversation_create now name isGroup members d)
                  = (case r of
                       Some e \<Rightarrow> d\<lparr>nextConversationId := nextConversationId d2,
                                   nextParticipantId := nextParticipantId d2\<rparr>
                     | None \<Rightarrow> d2)"
    using r by (simp add: conversation_create_def Let_def split: option.split)
  show ?thesis
  proof (cases r)
    case (Some e)
    then show ?thesis
      using assms frame result by (auto simp: conv_ids_fresh_def list_all_iff)
  next
    case None
    then show ?thesis
      using assms frame result by (fastforce simp: conv_ids_fresh_def list_all_iff)
  qed
qed

lemma conv_ids_fresh_private:
  "conv_ids_fresh d \<Longrightarrow> conv_ids_fresh (snd (findOrCreatePrivateConversation now a b d))"
  using conv_ids_fresh_create [of d now None False "[(a, False), (b, False)]"]
  by (auto simp: findOrCreatePrivateConversation_def private_lookup_def private_resume_def
      split: option.splits sum.splits prod.splits)

text \<open>
  Two distinct stored users, and any sequence of requests for their private conversation,
  in either order of the pair, each run to its end before the next starts, on a store whose
  conversation ids lie below the id counter: every request returns the id of one and the
  same stored private conversation that holds both users, at most one conversation is
  created, and the number of private conversations holding both users ends at one unless it
  was larger before.
\<close>

lemma findOrCreatePrivate_sequential:
  assumes "u1 \<noteq> u2" and "conv_ids_fresh d"
    and "user_findUnique d u1 \<noteq> None" and "user_findUnique d u2 \<noteq> None"
    and "set calls \<subseteq> {(u1, u2), (u2, u1)}" and "calls \<noteq> []"
  shows "\<exists>c. resolved_ids (fst (private_calls now calls d))
               = replicate (length calls) (Inr (c_id c))
           \<and> find (is_private_of (snd (private_calls now calls d)) u1 u2)
                (conversations (snd (private_calls now calls d))) = Some c
           \<and> length (conversations (snd (private_calls now calls d)))
               \<le> length (conversations d) + 1
           \<and> pair_count (snd (private_calls now calls d)) u1 u2 = max 1 (pair_count d u1 u2)"
proof (cases "find (is_private_of d u1 u2) (conversations d)")
  case (Some c)
  then have run: "private_calls now calls d
                    = (map (\<lambda>_. Inr (include_participants d c)) calls, d)"
    using assms private_calls_found by blast
  have "filter (is_private_of d u1 u2) (conversations d) \<noteq> []"
    using Some by (auto simp: find_Some_iff filter_empty_conv)
  then have "1 \<le> pair_count d u1 u2"
    by (cases "filter (is_private_of d u1 u2) (conversations d)") (simp_all add: pair_count_def)
  then show ?thesis
    using run Some
    by (intro exI [of _ c])
       (simp add: resolved_ids_def map_replicate_const include_participants_def max_def)
next
  case None
  obtain call rest where calls: "calls = call # rest"
    using assms(6) by (cases calls) auto
  then have call: "call = (u1, u2) \<or> call = (u2, u1)"
    and rest: "set rest \<subseteq> {(u1, u2), (u2, u1)}"
    using assms(5) by auto
  let ?a = "fst call" and ?b = "snd call"
  have ab: "?a \<noteq> ?b" using call assms(1) by auto
  have eq: "is_private_of d' ?a ?b = is_private_of d' u1 u2" for d'
    using call by (auto simp: is_private_of_commute [of d' u2 u1])
  have stored: "user_findUnique d ?a \<noteq> None" "user_findUnique d ?b \<noteq> None"
    using call assms(3,4) by auto
  obtain d' where d': "findOrCreatePrivateConversation now ?a ?b d
             = (Inr (include_participants d' (new_private now d)), d')"
      "conversations d' = conversations d @ [new_private now d]"
      "filter (is_private_of d' u1 u2) (conversations d') = [new_private now d]"
    using private_created [OF ab _ assms(2) stored, of now] None eq by auto
  have found: "find (is_private_of d' u1 u2) (conversations d') = Some (new_private now d)"
    using d'(3) by (rule find_filter_single)
  then have "private_calls now rest d'
               = (map (\<lambda>_. Inr (include_participants d' (new_private now d))) rest, d')"
    using assms(1) rest private_calls_found by blast
  then have run: "private_calls now calls d
        = (map (\<lambda>_. Inr (include_participants d' (new_private now d))) calls, d')"
    using calls d'(1) by (cases call) simp
  have "pair_count d u1 u2 = 0"
    using None by (simp add: pair_count_def find_None_iff filter_empty_conv)
  then show ?thesis
    using run found d'(2,3)
    by (intro exI [of _ "new_private now d"])
       (simp add: resolved_ids_def map_replicate_const include_participants_def pair_count_def)
qed

lemma findOrCreatePrivate_sequential_example:
  "resolved_ids (fst (private_calls 9 [(5, 7), (7, 5), (5, 7)] team_db))
     = [Inr 21, Inr 21, Inr 21]
   \<and> pair_count (snd (private_calls 9 [(5, 7), (7, 5), (5, 7)] team_db)) 5 7 = 1"
  by (simp add: pair_count_def resolved_ids_def is_private_of_def
      findOrCreatePrivateConversation_def private_lookup_def private_resume_def
      conversation_create_def include_participants_def participant_findUnique_def
      participants_of_def with_card_def user_findUnique_def select_card_def Let_def
      example_defs)

lemma findOrCreatePrivate_self:
  "findOrCreatePrivateConversation now u u d
     = (Inl (BadRequestException ''You cannot start a conversation with yourself''), d)"
  by (simp add: findOrCreatePrivateConversation_def private_lookup_def)

subsection \<open>Calls that overlap\<close>

text \<open>
  C4.  The claim: repeated requests for the private conversation of two users all resolve
  to one conversation id and at most one private conversation of the pair is ever created.
  The service awaits its lookup and then its creation, with no transaction around the two
  and no key on the pair.  Two requests for users 5 and 7, one in each order, overlap: both
  lookups run before either creation and find nothing, then each request creates a
  conversation.  The requests return the ids 21 and 22, and two private conversations
  holding both users are stored.
\<close>

theorem findOrCreatePrivate_overlapping_calls_duplicate:
  "private_lookup 5 7 team_db = Inr None \<and> private_lookup 7 5 team_db = Inr None
   \<and> resolved_ids [fst (private_resume 9 5 7 None team_db)] = [Inr 21]
   \<and> resolved_ids
        [fst (private_resume 9 7 5 None (snd (private_resume 9 5 7 None team_db)))]
       = [Inr 22]
   \<and> pair_count (snd (private_resume 9 7 5 None (snd (private_resume 9 5 7 None team_db))))
        5 7 = 2"
  by (simp add: pair_count_def resolved_ids_def is_private_of_def private_lookup_def
      private_resume_def conversation_create_def include_participants_def
      participant_findUnique_def participants_of_def with_card_def user_findUnique_def
      select_card_def Let_def example_defs)

section \<open>Presence\<close>

text \<open>
  A token whose payload has no \<open>id\<close> field is verified, but the handshake then fails on
  \<open>userId.toString()\<close>: the connection is closed, nothing is emitted and the store is not
  touched, whatever else the payload holds.  The tokens issued by \<open>getTokens\<close> are of
  this kind.
\<close>

lemma handleConnection_payload_without_id:
  assumes "or_else (hs_auth_token hs) (hs_query_token hs) = Some token"
    and "jwt_verify token = Some payload" and "jp_id payload = None"
  shows "fst (handleConnection jwt_verify now hs client d) = []
         \<and> \<not> sk_connected (fst (snd (handleConnection jwt_verify now hs client d)))
         \<and> snd (snd (handleConnection jwt_verify now hs client d)) = d"
  using assms
  by (simp add: handleConnection_def verifyToken_def client_disconnect_def client_join_def)

lemma handleConnection_issued_token:
  assumes "or_else (hs_auth_token hs) (hs_query_token hs) = Some token"
    and "jwt_verify token = Some (getTokens_payload userId email)"
  shows "fst (handleConnection jwt_verify now hs client d) = []
         \<and> \<not> sk_connected (fst (snd (handleConnection jwt_verify now hs client d)))
         \<and> snd (snd (handleConnection jwt_verify now hs client d)) = d"
  using assms
  by (simp add: handleConnection_def verifyToken_def client_disconnect_def client_join_def
      getTokens_payload_def)

text \<open>
  Apart from that, the gateway keeps no count of a user's connections.  With a payload that
  does carry the id of a stored user, every connection emits an online event and every
  disconnect an offline event, in any state of the gateway; user 7 opening two connections
  and closing the first sees online, online, offline, with one connection still open.
\<close>

lemma presence_emitted_per_connection:
  "(\<forall>token payload uid u.
      or_else (hs_auth_token hs) (hs_query_token hs) = Some token \<and> token \<noteq> []
      \<and> jwt_verify token = Some payload \<and> jp_id payload = Some uid
      \<and> user_findUnique (g_db g) uid = Some u \<longrightarrow>
      fst (step jwt_verify (Connect now sid hs) g) =
        [ServerEmit ''userStatusChanged''
           (UserStatus \<lparr>us_id = u_id u, us_username = u_username u, us_isOnline = True,
                        us_lastSeen = now\<rparr>)])
   \<and> (\<forall>client uid u.
      find (\<lambda>s. sk_id s = sid \<and> sk_connected s) (g_sockets g) = Some client
      \<and> sk_userId client = Some uid \<and> uid \<noteq> 0
      \<and> user_findUnique (g_db g) uid = Some u \<longrightarrow>
      fst (step jwt_verify (Disconnect now sid) g) =
        [ServerEmit ''userStatusChanged''
           (UserStatus \<lparr>us_id = u_id u, us_username = u_username u, us_isOnline = False,
                        us_lastSeen = now\<rparr>)])"
  by (auto simp: handleConnection_def handleDisconnect_def updateStatus_def verifyToken_def
      select_status_def client_join_def Let_def)

lemma presence_duplicate_transitions:
  "fst (run example_verify
          [Connect 10 1 gil_handshake, Connect 11 2 gil_handshake, Disconnect 12 1] idle_gateway)
     = [gil_status True 10, gil_status True 11, gil_status False 12]
   \<and> open_count (snd (run example_verify [Connect 10 1 gil_handshake] idle_gateway)) 7 = 1
   \<and> open_count (snd (run example_verify
          [Connect 10 1 gil_handshake, Connect 11 2 gil_handshake, Disconnect 12 1]
          idle_gateway)) 7 = 1"
  by (simp add: handleConnection_def handleDisconnect_def updateStatus_def user_findUnique_def
      verifyToken_def or_else_def client_join_def client_disconnect_def select_status_def
      open_count_def room_of_gil example_defs)


end
